theory Spec2Isabelle
  imports Complex_Main "HOL-Library.Word"
begin

unbundle bit_operations_syntax

section \<open>Numeric conventions\<close>

text \<open>
  The firmware computes with C \<^verbatim>\<open>float\<close>, \<^verbatim>\<open>long\<close> (32 bit) and
  \<^verbatim>\<open>unsigned long\<close>; on its processor \<^verbatim>\<open>double\<close> is the same type as
  \<^verbatim>\<open>float\<close>.

  A \<^verbatim>\<open>float\<close> is modelled as the \<^typ>\<open>real\<close> it denotes, and every arithmetic
  operation of the source on \<^verbatim>\<open>float\<close>s, as well as every conversion of an integer
  to \<^verbatim>\<open>float\<close>, rounds its exact result to binary32: to the nearest number with a
  significand of 24 bits, a halfway case to the one whose significand is even
  (\<open>float_round\<close>).  Infinities and NaN are not modelled: a result beyond the largest
  binary32 number, and a division by zero, are outside the model.

  A \<^verbatim>\<open>long\<close> is an \<^typ>\<open>int\<close> and an unsigned quantity a \<^typ>\<open>nat\<close>.  In
  \<^verbatim>\<open>plan_buffer_line\<close>, where step counts are subtracted and multiplied, the
  wrap-around of the 32-bit arithmetic is written out (\<open>long_of_int\<close>,
  \<open>ulong_of_int\<close>).  The conversions of a \<^verbatim>\<open>float\<close> to an integer (\<^verbatim>\<open>ceil\<close>,
  \<^verbatim>\<open>floor\<close>, \<^verbatim>\<open>lround\<close>, the truncating assignment) are the mathematical
  ones; C leaves the conversion of a value beyond the range of the integer type
  undefined.  The 16-bit and 8-bit arithmetic of the stepper's timer computation is
  modelled with machine words.

  The preprocessor selects one build.  The model is the default one: cartesian
  mechanics, one extruder, and none of the optional features (\<^verbatim>\<open>LASER\<close>,
  \<^verbatim>\<open>ADVANCE\<close>, \<^verbatim>\<open>COLOR_MIXING_EXTRUDER\<close>, \<^verbatim>\<open>DUAL_X_CARRIAGE\<close>,
  \<^verbatim>\<open>Z_DUAL_ENDSTOPS\<close>, \<^verbatim>\<open>Z_PROBE_ENDSTOP\<close>, \<^verbatim>\<open>NPR2\<close>, \<^verbatim>\<open>Z_LATE_ENABLE\<close>,
  \<^verbatim>\<open>AUTO_BED_LEVELING_FEATURE\<close>, \<^verbatim>\<open>PREVENT_DANGEROUS_EXTRUDE\<close>,
  \<^verbatim>\<open>XY_FREQUENCY_LIMIT\<close>, \<^verbatim>\<open>FILAMENT_SENSOR\<close>, \<^verbatim>\<open>OLD_SLOWDOWN\<close>,
  \<^verbatim>\<open>ABORT_ON_ENDSTOP_HIT_FEATURE_ENABLED\<close>); \<^verbatim>\<open>SLOWDOWN\<close> is a switch of the
  configuration.  Writes to pins and to the serial line are not part of the state.
\<close>

subsection \<open>binary32\<close>

text \<open>To the nearest integer, a halfway case to the even one.\<close>

definition round_even :: "real \<Rightarrow> int" where
  "round_even y =
     (let n = \<lfloor>y\<rfloor>; d = y - of_int n
      in if d < 1 / 2 then n else if 1 / 2 < d then n + 1 else if even n then n else n + 1)"

text \<open>
  The exponent \<open>e\<close> with \<open>2^e \<le> |x| < 2^(e+1)\<close>, but not below -126, the exponent
  of the smallest normal number; and the distance \<open>2^(e-23)\<close> of neighbouring
  binary32 numbers at \<open>x\<close>.
\<close>

definition float_exponent :: "real \<Rightarrow> int" where
  "float_exponent x = max \<lfloor>log 2 \<bar>x\<bar>\<rfloor> (- 126)"

definition float_ulp :: "real \<Rightarrow> real" where
  "float_ulp x = 2 powr (of_int (float_exponent x) - 23)"

definition float_round :: "real \<Rightarrow> real" where
  "float_round x =
     (if x = 0 then 0
      else sgn x * (of_int (round_even (\<bar>x\<bar> / float_ulp x)) * float_ulp x))"

text \<open>The operations of C on \<^verbatim>\<open>float\<close>, and the conversions of integers.\<close>

definition float_add :: "real \<Rightarrow> real \<Rightarrow> real" where
  "float_add x y = float_round (x + y)"

definition float_sub :: "real \<Rightarrow> real \<Rightarrow> real" where
  "float_sub x y = float_round (x - y)"

definition float_mul :: "real \<Rightarrow> real \<Rightarrow> real" where
  "float_mul x y = float_round (x * y)"

definition float_div :: "real \<Rightarrow> real \<Rightarrow> real" where
  "float_div x y = float_round (x / y)"

definition float_sqrt :: "real \<Rightarrow> real" where
  "float_sqrt x = float_round (sqrt x)"

definition float_of_int :: "int \<Rightarrow> real" where
  "float_of_int i = float_round (of_int i)"

definition float_of_nat :: "nat \<Rightarrow> real" where
  "float_of_nat n = float_round (of_nat n)"

subsection \<open>Integers\<close>

text \<open>
  The value of a \<^verbatim>\<open>long\<close> and of an \<^verbatim>\<open>unsigned long\<close> after the 32-bit arithmetic
  has wrapped, and \<^verbatim>\<open>labs\<close>.
\<close>

definition long_of_int :: "int \<Rightarrow> int" where
  "long_of_int i = (i + 2 ^ 31) mod 2 ^ 32 - 2 ^ 31"

definition ulong_of_int :: "int \<Rightarrow> nat" where
  "ulong_of_int i = nat (i mod 2 ^ 32)"

definition labs :: "int \<Rightarrow> int" where
  "labs i = long_of_int \<bar>i\<bar>"

text \<open>C's \<^verbatim>\<open>lround\<close>: to the nearest integer, halfway cases away from zero.\<close>

definition lround :: "real \<Rightarrow> int" where
  "lround x = (if 0 \<le> x then \<lfloor>x + 1 / 2\<rfloor> else - \<lfloor>- x + 1 / 2\<rfloor>)"

text \<open>The conversion of a \<^verbatim>\<open>float\<close> to an integer type: truncation towards zero.\<close>

definition trunc :: "real \<Rightarrow> int" where
  "trunc x = (if 0 \<le> x then \<lfloor>x\<rfloor> else \<lceil>x\<rceil>)"

text \<open>The axis indices of \<^verbatim>\<open>enum AxisEnum\<close>.\<close>

definition X_AXIS :: nat where "X_AXIS = 0"
definition Y_AXIS :: nat where "Y_AXIS = 1"
definition Z_AXIS :: nat where "Z_AXIS = 2"
definition E_AXIS :: nat where "E_AXIS = 3"
definition NUM_AXIS :: nat where "NUM_AXIS = 4"

section \<open>Configuration\<close>

text \<open>
  The configuration macros (\<^verbatim>\<open>DROP_SEGMENTS\<close>, \<^verbatim>\<open>MINIMUM_PLANNER_SPEED\<close>,
  \<^verbatim>\<open>SLOWDOWN\<close>, \<^verbatim>\<open>F_CPU\<close>, \<^verbatim>\<open>MAX_STEP_FREQUENCY\<close>,
  \<^verbatim>\<open>DOUBLE_STEP_FREQUENCY\<close>, the presence of the endstop pins \<^verbatim>\<open>HAS(X_MIN)\<close> ...)
  and the two tables of \<^verbatim>\<open>speed_lookuptable.h\<close> are not among the sources: they are
  parameters, fields of \<open>config\<close>.  A table row is the pair of its two words.  The
  record also holds the public variables of \<^verbatim>\<open>planner.cpp\<close> that the planner only
  reads (\<^verbatim>\<open>max_feedrate\<close>, \<^verbatim>\<open>axis_steps_per_unit\<close>, the accelerations and
  jerks, ...) and three variables it reads from other modules
  (\<^verbatim>\<open>volumetric_multiplier\<close>, \<^verbatim>\<open>extruder_multiplier\<close>, \<^verbatim>\<open>fanSpeed\<close>).  Arrays
  are lists.  \<^verbatim>\<open>BLOCK_BUFFER_SIZE\<close>, a power of two, is \<open>2 ^ LENGTH('a)\<close> for the
  type \<open>'a word\<close> of the ring's indices: \<^verbatim>\<open>BLOCK_MOD\<close> is the arithmetic of that
  type.
\<close>

record config =
  DROP_SEGMENTS :: nat
  MINIMUM_PLANNER_SPEED :: real
  SLOWDOWN :: bool
  F_CPU :: nat
  MAX_STEP_FREQUENCY :: nat
  DOUBLE_STEP_FREQUENCY :: nat
  speed_lookuptable_fast :: "nat \<Rightarrow> 16 word \<times> 16 word"
  speed_lookuptable_slow :: "nat \<Rightarrow> 16 word \<times> 16 word"
  HAS_X_MIN :: bool
  HAS_X_MAX :: bool
  HAS_Y_MIN :: bool
  HAS_Y_MAX :: bool
  HAS_Z_MIN :: bool
  HAS_Z_MAX :: bool
  minsegmenttime :: nat
  max_feedrate :: "real list"
  axis_steps_per_unit :: "real list"
  minimumfeedrate :: real
  acceleration :: real
  retract_acceleration :: "real list"
  travel_acceleration :: real
  max_xy_jerk :: real
  max_z_jerk :: real
  max_e_jerk :: "real list"
  mintravelfeedrate :: real
  axis_steps_per_sqr_second :: "nat list"
  volumetric_multiplier :: "real list"
  extruder_multiplier :: "int list"
  fanSpeed :: nat

section \<open>The block\<close>

text \<open>
  Modelled from the spec: \<^verbatim>\<open>block_t\<close> is declared in \<^verbatim>\<open>planner.h\<close>, which is not
  among the sources.  The record has the fields that \<^verbatim>\<open>planner.cpp\<close> and
  \<^verbatim>\<open>stepper.cpp\<close> read and write in the modelled build, with the types the spec's
  data model gives them.  \<open>steps\<close> is the array \<^verbatim>\<open>steps[NUM_AXIS]\<close>.  The
  block's field \<open>acceleration\<close> has the name of the planner's variable; the latter is
  written \<open>config.acceleration\<close>.
\<close>

record block_t =
  steps :: "int list"
  step_event_count :: nat
  accelerate_until :: int
  decelerate_after :: int
  acceleration_rate :: int
  direction_bits :: "8 word"
  active_driver :: nat
  nominal_speed :: real
  entry_speed :: real
  max_entry_speed :: real
  millimeters :: real
  acceleration :: real
  recalculate_flag :: bool
  nominal_length_flag :: bool
  nominal_rate :: nat
  initial_rate :: nat
  final_rate :: nat
  acceleration_st :: nat
  fan_speed :: nat
  busy :: bool

section \<open>The trapezoid solver (\<^verbatim>\<open>planner.cpp\<close>)\<close>

text \<open>
  The two distance functions take \<^verbatim>\<open>float\<close> parameters; the literals \<^verbatim>\<open>2\<close> and
  \<^verbatim>\<open>4\<close> are converted exactly.
\<close>

definition estimate_acceleration_distance :: "real \<Rightarrow> real \<Rightarrow> real \<Rightarrow> real" where
  "estimate_acceleration_distance initial_rate' target_rate acceleration' =
     (if acceleration' = 0 then 0
      else float_div (float_sub (float_mul target_rate target_rate)
                                (float_mul initial_rate' initial_rate'))
                     (float_mul acceleration' 2))"

definition intersection_distance :: "real \<Rightarrow> real \<Rightarrow> real \<Rightarrow> real \<Rightarrow> real" where
  "intersection_distance initial_rate' final_rate' acceleration' distance =
     (if acceleration' = 0 then 0
      else float_div
             (float_add (float_sub (float_mul (float_mul acceleration' 2) distance)
                                   (float_mul initial_rate' initial_rate'))
                        (float_mul final_rate' final_rate'))
             (float_mul acceleration' 4))"

text \<open>
  The local variables of \<^verbatim>\<open>calculate_trapezoid_for_block\<close> at the point where the
  critical section starts: the two rates after \<^verbatim>\<open>NOLESS(_, 120)\<close>, and
  \<^verbatim>\<open>accelerate_steps\<close> and \<^verbatim>\<open>plateau_steps\<close> after the \<^verbatim>\<open>plateau_steps < 0\<close>
  branch.
\<close>

record trapezoid =
  t_initial_rate :: nat
  t_final_rate :: nat
  t_accelerate_steps :: int
  t_plateau_steps :: int

text \<open>
  \<^verbatim>\<open>plateau_steps\<close> as first computed (line 166), from the rates after the floor.  The
  integer arguments of \<^verbatim>\<open>estimate_acceleration_distance\<close> are converted to
  \<^verbatim>\<open>float\<close>.
\<close>

definition first_plateau_steps :: "block_t \<Rightarrow> nat \<Rightarrow> nat \<Rightarrow> int" where
  "first_plateau_steps block ir fr =
     (let acceleration' = int (acceleration_st block);
          accelerate_steps = \<lceil>estimate_acceleration_distance (float_of_nat ir)
                               (float_of_nat (nominal_rate block)) (float_of_int acceleration')\<rceil>;
          decelerate_steps = \<lfloor>estimate_acceleration_distance (float_of_nat (nominal_rate block))
                               (float_of_nat fr) (float_of_int (- acceleration'))\<rfloor>
      in int (step_event_count block) - accelerate_steps - decelerate_steps)"

text \<open>
  \<^verbatim>\<open>ceil(block->nominal_rate * entry_factor)\<close>: the rate is converted to \<^verbatim>\<open>float\<close>,
  the product is rounded to binary32, and \<^verbatim>\<open>ceil\<close> is applied to the rounded product.
\<close>

definition trapezoid_locals :: "block_t \<Rightarrow> real \<Rightarrow> real \<Rightarrow> trapezoid" where
  "trapezoid_locals block entry_factor exit_factor =
     (let ir = max (nat \<lceil>float_mul (float_of_nat (nominal_rate block)) entry_factor\<rceil>) 120;
          fr = max (nat \<lceil>float_mul (float_of_nat (nominal_rate block)) exit_factor\<rceil>) 120;
          acceleration' = int (acceleration_st block);
          accelerate_steps = \<lceil>estimate_acceleration_distance (float_of_nat ir)
                               (float_of_nat (nominal_rate block)) (float_of_int acceleration')\<rceil>;
          plateau_steps = first_plateau_steps block ir fr
      in if plateau_steps < 0
         then \<lparr>t_initial_rate = ir, t_final_rate = fr,
               t_accelerate_steps =
                 min (max \<lceil>intersection_distance (float_of_nat ir) (float_of_nat fr)
                              (float_of_int acceleration')
                              (float_of_nat (step_event_count block))\<rceil> 0)
                     (int (step_event_count block)),
               t_plateau_steps = 0\<rparr>
         else \<lparr>t_initial_rate = ir, t_final_rate = fr,
               t_accelerate_steps = accelerate_steps,
               t_plateau_steps = plateau_steps\<rparr>)"

definition calculate_trapezoid_for_block :: "block_t \<Rightarrow> real \<Rightarrow> real \<Rightarrow> block_t" where
  "calculate_trapezoid_for_block block entry_factor exit_factor =
     (let t = trapezoid_locals block entry_factor exit_factor
      in if \<not> busy block
         then block\<lparr>accelerate_until := t_accelerate_steps t,
                    decelerate_after := t_accelerate_steps t + t_plateau_steps t,
                    initial_rate := t_initial_rate t,
                    final_rate := t_final_rate t\<rparr>
         else block)"

section \<open>The stepper's timer (\<^verbatim>\<open>stepper.cpp\<close>)\<close>

text \<open>
  \<^verbatim>\<open>MultiU16X8toH16\<close>, instruction by instruction: the product of the byte with the
  high byte of the word, plus the high byte of its product with the low byte, plus the
  carry that \<^verbatim>\<open>lsr r0\<close> leaves (bit 0 of the low product), in 16 bits.
\<close>

definition MultiU16X8toH16 :: "8 word \<Rightarrow> 16 word \<Rightarrow> 16 word" where
  "MultiU16X8toH16 charIn1 intIn2 =
     (let c = unat charIn1;
          lo = unat intIn2 mod 256;
          hi = unat intIn2 div 256
      in of_nat (c * hi + (c * lo) div 256 + (c * lo) mod 2))"

text \<open>
  \<^verbatim>\<open>MultiU24X32toH16\<close>: \<open>A1, B1, C1\<close> are the three low bytes of the first operand,
  \<open>A2 ... D2\<close> the bytes of the second.  The registers \<open>B0:A0:r27\<close> accumulate the
  partial products of weight \<open>2^16\<close> to \<open>2^39\<close> with the carries the code propagates;
  \<^verbatim>\<open>lsr r27\<close> rounds with bit 0 of \<open>r27\<close>; the two products with \<open>D2\<close> are added to
  the 16-bit result last.
\<close>

definition MultiU24X32toH16 :: "32 word \<Rightarrow> 32 word \<Rightarrow> 16 word" where
  "MultiU24X32toH16 longIn1 longIn2 =
     (let A1 = unat longIn1 mod 256;
          B1 = unat longIn1 div 256 mod 256;
          C1 = unat longIn1 div 65536 mod 256;
          A2 = unat longIn2 mod 256;
          B2 = unat longIn2 div 256 mod 256;
          C2 = unat longIn2 div 65536 mod 256;
          D2 = unat longIn2 div 16777216 mod 256;
          t = ((A1 * B2) div 256 + (B1 * A2) div 256 + A1 * C2 + B1 * B2 + C1 * A2
                 + 256 * (B1 * C2 + C1 * B2) + 65536 * (C1 * C2)) mod 16777216
      in of_nat (t div 256 + t mod 2 + D2 * A1 + 256 * (D2 * B1)))"

text \<open>
  The first half of \<^verbatim>\<open>calc_timer\<close> (lines 541 to 553): the rate after
  \<^verbatim>\<open>NOMORE(step_rate, MAX_STEP_FREQUENCY)\<close> and the shift, and \<^verbatim>\<open>step_loops\<close>.
\<close>

definition calc_timer_loops :: "config \<Rightarrow> 16 word \<Rightarrow> 16 word \<times> nat" where
  "calc_timer_loops cfg step_rate =
     (let step_rate = (if unat step_rate > MAX_STEP_FREQUENCY cfg
                       then of_nat (MAX_STEP_FREQUENCY cfg) else step_rate)
      in if unat step_rate > 2 * DOUBLE_STEP_FREQUENCY cfg
         then (drop_bit 2 step_rate AND 0x3fff, 4)
         else if unat step_rate > DOUBLE_STEP_FREQUENCY cfg
         then (drop_bit 1 step_rate AND 0x7fff, 2)
         else (step_rate, 1))"

text \<open>
  The second half (lines 555 to 569): the table lookup with interpolation.  The byte
  offset \<^verbatim>\<open>(step_rate >> 1) & 0xfffc\<close> into the slow table, whose rows are four
  bytes, is row \<^verbatim>\<open>step_rate >> 3\<close>.
\<close>

definition calc_timer_lookup :: "config \<Rightarrow> 16 word \<Rightarrow> 16 word" where
  "calc_timer_lookup cfg step_rate =
     (let floor_rate = F_CPU cfg div 500000;
          step_rate = (if unat step_rate < floor_rate then of_nat floor_rate else step_rate);
          step_rate = step_rate - of_nat floor_rate
      in if 8 * 256 \<le> unat step_rate
         then (let row = speed_lookuptable_fast cfg (unat (ucast (drop_bit 8 step_rate) :: 8 word));
                   tmp_step_rate = (ucast (step_rate AND 0x00ff) :: 8 word);
                   gain = snd row
               in fst row - MultiU16X8toH16 tmp_step_rate gain)
         else (let row = speed_lookuptable_slow cfg (unat (drop_bit 3 step_rate))
               in fst row - drop_bit 3 (snd row * ucast (ucast (step_rate AND 0x0007) :: 8 word))))"

text \<open>
  \<^verbatim>\<open>calc_timer\<close> returns the timer period and leaves \<^verbatim>\<open>step_loops\<close> in a global;
  the model returns both.  The diagnostic it prints when it floors the period is not
  modelled.
\<close>

definition calc_timer :: "config \<Rightarrow> 16 word \<Rightarrow> 16 word \<times> nat" where
  "calc_timer cfg step_rate =
     (let (step_rate, step_loops) = calc_timer_loops cfg step_rate;
          timer = calc_timer_lookup cfg step_rate
      in (if timer < 100 then 100 else timer, step_loops))"

section \<open>The planner's state and the ring (\<^verbatim>\<open>planner.cpp\<close>)\<close>

text \<open>
  The semi-private and private variables of \<^verbatim>\<open>planner.cpp\<close>.  The ring's indices
  are words of the width of \<^verbatim>\<open>BLOCK_MOD\<close>; the array \<^verbatim>\<open>block_buffer\<close> is a function
  of the index.
\<close>

record (overloaded) 'a planner =
  block_buffer :: "'a word \<Rightarrow> block_t"
  block_buffer_head :: "'a word"
  block_buffer_tail :: "'a word"
  position :: "int list"
  previous_speed :: "real list"
  previous_nominal_speed :: real

definition next_block_index :: "'a::len word \<Rightarrow> 'a word" where
  "next_block_index block_index = block_index + 1"

definition prev_block_index :: "'a::len word \<Rightarrow> 'a word" where
  "prev_block_index block_index = block_index - 1"

text \<open>
  Modelled from the spec: \<^verbatim>\<open>blocks_queued\<close>, \<^verbatim>\<open>movesplanned\<close>,
  \<^verbatim>\<open>plan_get_current_block\<close> and \<^verbatim>\<open>plan_discard_current_block\<close> are inline
  functions of \<^verbatim>\<open>planner.h\<close>, which is not among the sources.  The ring is empty iff
  \<open>head = tail\<close>; the count of queued moves is \<open>head - tail\<close> in the ring's
  arithmetic; the consumer pops at \<open>tail\<close>; a latched block is \<open>busy\<close>.
\<close>

definition blocks_queued :: "'a::len planner \<Rightarrow> bool" where
  "blocks_queued s = (block_buffer_head s \<noteq> block_buffer_tail s)"

definition movesplanned :: "'a::len planner \<Rightarrow> nat" where
  "movesplanned s = unat (block_buffer_head s - block_buffer_tail s)"

definition plan_get_current_block :: "'a::len planner \<Rightarrow> 'a word option \<times> 'a planner" where
  "plan_get_current_block s =
     (if blocks_queued s
      then (Some (block_buffer_tail s),
            s\<lparr>block_buffer := (block_buffer s)
                  (block_buffer_tail s := (block_buffer s (block_buffer_tail s))\<lparr>busy := True\<rparr>)\<rparr>)
      else (None, s))"

definition plan_discard_current_block :: "'a::len planner \<Rightarrow> 'a planner" where
  "plan_discard_current_block s =
     (if blocks_queued s
      then s\<lparr>block_buffer_tail := next_block_index (block_buffer_tail s)\<rparr>
      else s)"

definition plan_init :: "'a::len planner \<Rightarrow> 'a planner" where
  "plan_init s = s\<lparr>block_buffer_head := 0, block_buffer_tail := 0,
     position := [0, 0, 0, 0], previous_speed := [0, 0, 0, 0],
     previous_nominal_speed := 0\<rparr>"

section \<open>Lookahead\<close>

definition max_allowable_speed :: "real \<Rightarrow> real \<Rightarrow> real \<Rightarrow> real" where
  "max_allowable_speed acceleration' target_velocity distance =
     float_sqrt (float_sub (float_mul target_velocity target_velocity)
                           (float_mul (float_mul 2 acceleration') distance))"

text \<open>
  The kernels take the three pointers of the window \<^verbatim>\<open>block[3]\<close> as optional indices
  into the buffer (\<open>None\<close> is \<^verbatim>\<open>NULL\<close>) and return the buffer.
\<close>

definition planner_reverse_pass_kernel ::
    "'a::len word option \<Rightarrow> 'a word option \<Rightarrow> 'a word option
       \<Rightarrow> ('a word \<Rightarrow> block_t) \<Rightarrow> ('a word \<Rightarrow> block_t)" where
  "planner_reverse_pass_kernel previous current next buf =
     (case current of
        None \<Rightarrow> buf
      | Some c \<Rightarrow>
         (case next of
            None \<Rightarrow> buf
          | Some n \<Rightarrow>
             (let max_entry_speed' = max_entry_speed (buf c)
              in if entry_speed (buf c) \<noteq> max_entry_speed'
                 then buf(c := (buf c)
                        \<lparr>entry_speed :=
                           (if \<not> nominal_length_flag (buf c)
                                 \<and> max_entry_speed' > entry_speed (buf n)
                            then min max_entry_speed'
                                   (max_allowable_speed (- acceleration (buf c))
                                      (entry_speed (buf n)) (millimeters (buf c)))
                            else max_entry_speed'),
                         recalculate_flag := True\<rparr>)
                 else buf)))"

function reverse_pass_loop ::
    "'a::len word \<Rightarrow> 'a word \<Rightarrow> 'a word option \<times> 'a word option \<times> 'a word option
       \<Rightarrow> ('a word \<Rightarrow> block_t) \<Rightarrow> ('a word \<Rightarrow> block_t)" where
  "reverse_pass_loop tail block_index block buf =
     (if block_index \<noteq> tail
      then (let block_index = prev_block_index block_index;
                block = (Some block_index, fst block, fst (snd block))
            in reverse_pass_loop tail block_index block
                 (planner_reverse_pass_kernel (fst block) (fst (snd block)) (snd (snd block)) buf))
      else buf)"
  by pat_completeness auto
termination
proof (relation "measure (\<lambda>(tail, block_index, block, buf). unat (block_index - tail))")
  show "wf (measure (\<lambda>(tail, block_index, block, buf). unat (block_index - tail)))"
    by simp
next
  fix tail block_index :: "'a word"
    and block :: "'a word option \<times> 'a word option \<times> 'a word option"
    and buf :: "'a word \<Rightarrow> block_t" and x xa
  assume ne: "block_index \<noteq> tail" and x: "x = prev_block_index block_index"
  have "block_index - tail \<noteq> 0" using ne by simp
  then have "unat (block_index - tail - 1) < unat (block_index - tail)"
    by (simp add: unat_minus_one unat_gt_0)
  then show "((tail, x, xa, planner_reverse_pass_kernel (fst xa) (fst (snd xa)) (snd (snd xa)) buf),
              (tail, block_index, block, buf))
           \<in> measure (\<lambda>(tail, block_index, block, buf). unat (block_index - tail))"
    by (simp add: x prev_block_index_def algebra_simps)
qed

declare reverse_pass_loop.simps [simp del]

definition planner_reverse_pass :: "'a::len planner \<Rightarrow> 'a planner" where
  "planner_reverse_pass s =
     (let tail = block_buffer_tail s
      in if unat (block_buffer_head s - tail) > 3
         then s\<lparr>block_buffer :=
                  reverse_pass_loop tail (block_buffer_head s - 3) (None, None, None)
                    (block_buffer s)\<rparr>
         else s)"

definition planner_forward_pass_kernel ::
    "'a::len word option \<Rightarrow> 'a word option \<Rightarrow> 'a word option
       \<Rightarrow> ('a word \<Rightarrow> block_t) \<Rightarrow> ('a word \<Rightarrow> block_t)" where
  "planner_forward_pass_kernel previous current next buf =
     (case previous of
        None \<Rightarrow> buf
      | Some p \<Rightarrow>
         (case current of
            None \<Rightarrow> buf
          | Some c \<Rightarrow>
             (if \<not> nominal_length_flag (buf p) \<and> entry_speed (buf p) < entry_speed (buf c)
              then (let entry_speed' =
                          min (entry_speed (buf c))
                              (max_allowable_speed (- acceleration (buf p))
                                 (entry_speed (buf p)) (millimeters (buf p)))
                    in if entry_speed (buf c) \<noteq> entry_speed'
                       then buf(c := (buf c)\<lparr>entry_speed := entry_speed',
                                               recalculate_flag := True\<rparr>)
                       else buf)
              else buf)))"

function forward_pass_loop ::
    "'a::len word \<Rightarrow> 'a word \<Rightarrow> 'a word option \<times> 'a word option \<times> 'a word option
       \<Rightarrow> ('a word \<Rightarrow> block_t)
       \<Rightarrow> ('a word option \<times> 'a word option \<times> 'a word option) \<times> ('a word \<Rightarrow> block_t)" where
  "forward_pass_loop head block_index block buf =
     (if block_index \<noteq> head
      then (let block = (fst (snd block), snd (snd block), Some block_index)
            in forward_pass_loop head (next_block_index block_index) block
                 (planner_forward_pass_kernel (fst block) (fst (snd block)) (snd (snd block)) buf))
      else (block, buf))"
  by pat_completeness auto
termination
proof (relation "measure (\<lambda>(head, block_index, block, buf). unat (head - block_index))")
  show "wf (measure (\<lambda>(head, block_index, block, buf). unat (head - block_index)))"
    by simp
next
  fix head block_index :: "'a word"
    and block :: "'a word option \<times> 'a word option \<times> 'a word option"
    and buf :: "'a word \<Rightarrow> block_t" and x
  assume ne: "block_index \<noteq> head"
  have "head - block_index \<noteq> 0" using ne by auto
  then have "unat (head - block_index - 1) < unat (head - block_index)"
    by (simp add: unat_minus_one unat_gt_0)
  then show "((head, next_block_index block_index, x,
               planner_forward_pass_kernel (fst x) (fst (snd x)) (snd (snd x)) buf),
              (head, block_index, block, buf))
           \<in> measure (\<lambda>(head, block_index, block, buf). unat (head - block_index))"
    by (simp add: next_block_index_def algebra_simps)
qed

declare forward_pass_loop.simps [simp del]

definition planner_forward_pass :: "'a::len planner \<Rightarrow> 'a planner" where
  "planner_forward_pass s =
     (let (block, buf) = forward_pass_loop (block_buffer_head s) (block_buffer_tail s)
                           (None, None, None) (block_buffer s)
      in s\<lparr>block_buffer :=
             planner_forward_pass_kernel (fst (snd block)) (snd (snd block)) None buf\<rparr>)"

text \<open>
  The loop of \<^verbatim>\<open>planner_recalculate_trapezoids\<close>; it returns the pointer \<^verbatim>\<open>next\<close>
  with the buffer.
\<close>

function recalculate_trapezoids_loop ::
    "'a::len word \<Rightarrow> 'a word \<Rightarrow> 'a word option \<Rightarrow> ('a word \<Rightarrow> block_t)
       \<Rightarrow> 'a word option \<times> ('a word \<Rightarrow> block_t)" where
  "recalculate_trapezoids_loop head block_index next buf =
     (if block_index \<noteq> head
      then (let current = next; next = Some block_index
            in recalculate_trapezoids_loop head (next_block_index block_index) next
                 (case current of
                    None \<Rightarrow> buf
                  | Some c \<Rightarrow>
                     (if recalculate_flag (buf c) \<or> recalculate_flag (buf block_index)
                      then (let nom = nominal_speed (buf c)
                            in buf(c := (calculate_trapezoid_for_block (buf c)
                                           (float_div (entry_speed (buf c)) nom)
                                           (float_div (entry_speed (buf block_index)) nom))
                                        \<lparr>recalculate_flag := False\<rparr>))
                      else buf)))
      else (next, buf))"
  by pat_completeness auto
termination
proof (relation "measure (\<lambda>(head, block_index, next, buf). unat (head - block_index))")
  show "wf (measure (\<lambda>(head, block_index, next, buf). unat (head - block_index)))"
    by simp
next
  fix head block_index :: "'a word" and "next" x xa :: "'a word option"
    and buf :: "'a word \<Rightarrow> block_t"
  assume ne: "block_index \<noteq> head"
  have "head - block_index \<noteq> 0" using ne by auto
  then have "unat (head - block_index - 1) < unat (head - block_index)"
    by (simp add: unat_minus_one unat_gt_0)
  then show "((head, next_block_index block_index, xa,
               case x of None \<Rightarrow> buf
               | Some c \<Rightarrow>
                   if recalculate_flag (buf c) \<or> recalculate_flag (buf block_index)
                   then let nom = nominal_speed (buf c)
                        in buf(c := (calculate_trapezoid_for_block (buf c)
                                       (float_div (entry_speed (buf c)) nom)
                                       (float_div (entry_speed (buf block_index)) nom))
                                    \<lparr>recalculate_flag := False\<rparr>)
                   else buf),
              (head, block_index, next, buf))
           \<in> measure (\<lambda>(head, block_index, next, buf). unat (head - block_index))"
    by (simp add: next_block_index_def algebra_simps)
qed

declare recalculate_trapezoids_loop.simps [simp del]

definition planner_recalculate_trapezoids :: "config \<Rightarrow> 'a::len planner \<Rightarrow> 'a planner" where
  "planner_recalculate_trapezoids cfg s =
     (let (next, buf) = recalculate_trapezoids_loop (block_buffer_head s) (block_buffer_tail s)
                          None (block_buffer s)
      in s\<lparr>block_buffer :=
             (case next of
                None \<Rightarrow> buf
              | Some n \<Rightarrow>
                 (let nom = nominal_speed (buf n)
                  in buf(n := (calculate_trapezoid_for_block (buf n)
                                 (float_div (entry_speed (buf n)) nom)
                                 (float_div (MINIMUM_PLANNER_SPEED cfg) nom))
                              \<lparr>recalculate_flag := False\<rparr>)))\<rparr>)"

definition planner_recalculate :: "config \<Rightarrow> 'a::len planner \<Rightarrow> 'a planner" where
  "planner_recalculate cfg s =
     planner_recalculate_trapezoids cfg (planner_forward_pass (planner_reverse_pass s))"

section \<open>\<^verbatim>\<open>plan_buffer_line\<close>\<close>

text \<open>
  The function is one straight-line body; the model cuts it at the points where a group
  of locals is complete.  Line numbers refer to \<^verbatim>\<open>planner.cpp\<close>.
\<close>

text \<open>
  Lines 514 to 518: the target in absolute steps.  \<^verbatim>\<open>lround\<close> is applied to the
  product as rounded to binary32.
\<close>

definition target_steps :: "config \<Rightarrow> real \<Rightarrow> real \<Rightarrow> real \<Rightarrow> real \<Rightarrow> nat \<Rightarrow> int list" where
  "target_steps cfg x y z e extruder =
     [lround (float_mul x (axis_steps_per_unit cfg ! X_AXIS)),
      lround (float_mul y (axis_steps_per_unit cfg ! Y_AXIS)),
      lround (float_mul z (axis_steps_per_unit cfg ! Z_AXIS)),
      lround (float_mul e (axis_steps_per_unit cfg ! (E_AXIS + extruder)))]"

text \<open>
  Lines 530 to 533: the deltas \<^verbatim>\<open>dx, dy, dz, de\<close>, differences of 32-bit integers.
\<close>

definition step_deltas :: "int list \<Rightarrow> int list \<Rightarrow> int list" where
  "step_deltas target position' =
     [long_of_int (target ! X_AXIS - position' ! X_AXIS),
      long_of_int (target ! Y_AXIS - position' ! Y_AXIS),
      long_of_int (target ! Z_AXIS - position' ! Z_AXIS),
      long_of_int (target ! E_AXIS - position' ! E_AXIS)]"

text \<open>C's integer division truncates towards zero.\<close>

definition c_div :: "int \<Rightarrow> int \<Rightarrow> int" where
  "c_div a b = sgn a * sgn b * (\<bar>a\<bar> div \<bar>b\<bar>)"

text \<open>
  Lines 598 to 606: the step counts of the block from the deltas \<open>d = [dx, dy, dz, de]\<close>.
  \<^verbatim>\<open>steps[E_AXIS]\<close> is a \<^verbatim>\<open>long\<close>: it is multiplied by the \<^verbatim>\<open>float\<close>
  volumetric multiplier (the \<^verbatim>\<open>long\<close> is converted to \<^verbatim>\<open>float\<close>, the product is
  rounded to binary32 and truncated back to \<^verbatim>\<open>long\<close>), then by the integer
  percentage in 32-bit arithmetic, which wraps, then divided by 100.
\<close>

definition block_steps :: "config \<Rightarrow> nat \<Rightarrow> int list \<Rightarrow> int list" where
  "block_steps cfg extruder d =
     [labs (d ! X_AXIS), labs (d ! Y_AXIS), labs (d ! Z_AXIS),
      c_div (long_of_int
               (trunc (float_mul (float_of_int (labs (d ! E_AXIS)))
                                 (volumetric_multiplier cfg ! extruder))
                  * extruder_multiplier cfg ! extruder)) 100]"

text \<open>Line 607: the maximum of four \<^verbatim>\<open>long\<close>s, stored in an \<^verbatim>\<open>unsigned long\<close>.\<close>

definition block_step_event_count :: "int list \<Rightarrow> nat" where
  "block_step_event_count st =
     ulong_of_int (max (st ! X_AXIS) (max (st ! Y_AXIS) (max (st ! Z_AXIS) (st ! E_AXIS))))"

text \<open>Lines 633 to 652: \<^verbatim>\<open>SBI(dirb, axis)\<close> for every negative delta.\<close>

definition block_direction_bits :: "int list \<Rightarrow> 8 word" where
  "block_direction_bits d =
     (if d ! X_AXIS < 0 then push_bit X_AXIS 1 else 0)
     OR (if d ! Y_AXIS < 0 then push_bit Y_AXIS 1 else 0)
     OR (if d ! Z_AXIS < 0 then push_bit Z_AXIS 1 else 0)
     OR (if d ! E_AXIS < 0 then push_bit E_AXIS 1 else 0)"

text \<open>Lines 812 to 815: the floor of the feed rate.\<close>

definition floored_feed_rate :: "config \<Rightarrow> int list \<Rightarrow> real \<Rightarrow> real" where
  "floored_feed_rate cfg st feed_rate =
     (if st ! E_AXIS \<noteq> 0 then max feed_rate (minimumfeedrate cfg)
      else max feed_rate (mintravelfeedrate cfg))"

text \<open>Lines 840 to 845.\<close>

definition block_delta_mm :: "config \<Rightarrow> nat \<Rightarrow> int list \<Rightarrow> real list" where
  "block_delta_mm cfg extruder d =
     [float_div (float_of_int (d ! X_AXIS)) (axis_steps_per_unit cfg ! X_AXIS),
      float_div (float_of_int (d ! Y_AXIS)) (axis_steps_per_unit cfg ! Y_AXIS),
      float_div (float_of_int (d ! Z_AXIS)) (axis_steps_per_unit cfg ! Z_AXIS),
      float_div
        (float_mul
           (float_mul
              (float_div (float_of_int (d ! E_AXIS)) (axis_steps_per_unit cfg ! (E_AXIS + extruder)))
              (volumetric_multiplier cfg ! extruder))
           (float_of_int (extruder_multiplier cfg ! extruder)))
        100]"

text \<open>Lines 847 to 860.\<close>

definition block_millimeters :: "config \<Rightarrow> int list \<Rightarrow> real list \<Rightarrow> real" where
  "block_millimeters cfg st delta_mm =
     (if st ! X_AXIS \<le> int (DROP_SEGMENTS cfg) \<and> st ! Y_AXIS \<le> int (DROP_SEGMENTS cfg)
           \<and> st ! Z_AXIS \<le> int (DROP_SEGMENTS cfg)
      then \<bar>delta_mm ! E_AXIS\<bar>
      else float_sqrt
             (float_add
                (float_add (float_mul (delta_mm ! X_AXIS) (delta_mm ! X_AXIS))
                           (float_mul (delta_mm ! Y_AXIS) (delta_mm ! Y_AXIS)))
                (float_mul (delta_mm ! Z_AXIS) (delta_mm ! Z_AXIS))))"

text \<open>
  Lines 909 to 935: \<^verbatim>\<open>inverse_second\<close>, with the slowdown of a draining buffer.
  \<open>buffer_size\<close> is \<^verbatim>\<open>BLOCK_BUFFER_SIZE\<close>.  \<^verbatim>\<open>segment_time\<close> and \<^verbatim>\<open>minsegmenttime\<close> are
  \<^verbatim>\<open>unsigned long\<close>, so \<^verbatim>\<open>2 * (minsegmenttime - segment_time) / moves_queued\<close> is
  computed in unsigned 32-bit arithmetic, the division being the integer one; the
  quotient is converted to \<^verbatim>\<open>float\<close> for \<^verbatim>\<open>lround\<close>, and so is the sum for the
  division.
\<close>

definition slowed_segment_time :: "config \<Rightarrow> nat \<Rightarrow> nat \<Rightarrow> nat" where
  "slowed_segment_time cfg moves_queued segment_time =
     ulong_of_int
       (int segment_time
        + lround (float_of_nat
            (ulong_of_int (2 * (int (minsegmenttime cfg) - int segment_time)) div moves_queued)))"

definition block_inverse_second :: "config \<Rightarrow> nat \<Rightarrow> nat \<Rightarrow> real \<Rightarrow> real \<Rightarrow> real" where
  "block_inverse_second cfg buffer_size moves_queued millimeters' feed_rate =
     (let inverse_millimeters = float_div 1 millimeters';
          inverse_second = float_mul feed_rate inverse_millimeters;
          mq = (moves_queued > 1 \<and> moves_queued < buffer_size div 2);
          segment_time = ulong_of_int (lround (float_div 1000000 inverse_second))
      in if SLOWDOWN cfg \<and> mq \<and> segment_time < minsegmenttime cfg
         then float_div 1000000 (float_of_nat (slowed_segment_time cfg moves_queued segment_time))
         else inverse_second)"

text \<open>
  Lines 966 to 973: the speed of every axis and the factor that brings all of them
  within \<^verbatim>\<open>max_feedrate\<close>; the loop over the four axes, the factor as accumulator.
\<close>

fun speed_factor_loop :: "config \<Rightarrow> real list \<Rightarrow> nat \<Rightarrow> nat \<Rightarrow> real \<Rightarrow> real" where
  "speed_factor_loop cfg current_speed i 0 speed_factor = speed_factor"
| "speed_factor_loop cfg current_speed i (Suc n) speed_factor =
     (let cs = \<bar>current_speed ! i\<bar>; mf = max_feedrate cfg ! i
      in speed_factor_loop cfg current_speed (Suc i) n
           (if cs > mf then min speed_factor (float_div mf cs) else speed_factor))"

definition block_speed_factor :: "config \<Rightarrow> real list \<Rightarrow> real" where
  "block_speed_factor cfg current_speed = speed_factor_loop cfg current_speed 0 NUM_AXIS 1"

text \<open>
  Lines 1021 to 1043: the acceleration in steps/s^2, limited per axis.  The four
  limits are applied in turn, each to the value the previous one left; the comparison
  is one of \<^verbatim>\<open>float\<close>s.
\<close>

definition axis_acceleration_limit :: "nat \<Rightarrow> int \<Rightarrow> nat \<Rightarrow> nat \<Rightarrow> nat" where
  "axis_acceleration_limit acc_st bs count axis_steps =
     (if float_div (float_mul (float_of_nat acc_st) (float_of_int bs)) (float_of_nat count)
           > float_of_nat axis_steps
      then axis_steps else acc_st)"

definition block_acceleration_st :: "config \<Rightarrow> nat \<Rightarrow> int list \<Rightarrow> nat \<Rightarrow> real \<Rightarrow> nat" where
  "block_acceleration_st cfg extruder st count millimeters' =
     (let steps_per_mm = float_div (float_of_nat count) millimeters';
          bsx = st ! X_AXIS; bsy = st ! Y_AXIS; bsz = st ! Z_AXIS; bse = st ! E_AXIS;
          acc_st = (if bsx = 0 \<and> bsy = 0 \<and> bsz = 0
                    then nat \<lceil>float_mul (retract_acceleration cfg ! extruder) steps_per_mm\<rceil>
                    else if bse = 0
                    then nat \<lceil>float_mul (travel_acceleration cfg) steps_per_mm\<rceil>
                    else nat \<lceil>float_mul (config.acceleration cfg) steps_per_mm\<rceil>);
          xsteps = axis_steps_per_sqr_second cfg ! X_AXIS;
          ysteps = axis_steps_per_sqr_second cfg ! Y_AXIS;
          zsteps = axis_steps_per_sqr_second cfg ! Z_AXIS;
          esteps = axis_steps_per_sqr_second cfg ! (E_AXIS + extruder);
          acc_st = axis_acceleration_limit acc_st bsx count xsteps;
          acc_st = axis_acceleration_limit acc_st bsy count ysteps;
          acc_st = axis_acceleration_limit acc_st bsz count zsteps;
          acc_st = axis_acceleration_limit acc_st bse count esteps
      in acc_st)"

text \<open>
  Lines 1093 to 1118: the junction speed.  The result is the pair of
  \<^verbatim>\<open>vmax_junction\<close> and \<^verbatim>\<open>safe_speed\<close>.  The literal \<^verbatim>\<open>0.0001\<close> is the
  binary32 number nearest to it.
\<close>

definition block_junction_speed ::
    "config \<Rightarrow> nat \<Rightarrow> nat \<Rightarrow> real list \<Rightarrow> real \<Rightarrow> real list \<Rightarrow> real \<Rightarrow> real \<times> real" where
  "block_junction_speed cfg extruder moves_queued current_speed nominal_speed'
       previous_speed' previous_nominal_speed' =
     (let vmax_junction = float_div (max_xy_jerk cfg) 2;
          vmax_junction_factor = 1;
          mz2 = float_div (max_z_jerk cfg) 2; me2 = float_div (max_e_jerk cfg ! extruder) 2;
          csz = current_speed ! Z_AXIS; cse = current_speed ! E_AXIS;
          vmax_junction = (if \<bar>csz\<bar> > mz2 then min vmax_junction mz2 else vmax_junction);
          vmax_junction = (if \<bar>cse\<bar> > me2 then min vmax_junction me2 else vmax_junction);
          vmax_junction = min vmax_junction nominal_speed';
          safe_speed = vmax_junction
      in if moves_queued > 1 \<and> previous_nominal_speed' > float_round (1 / 10000)
         then (let dsx = float_sub (current_speed ! X_AXIS) (previous_speed' ! X_AXIS);
                   dsy = float_sub (current_speed ! Y_AXIS) (previous_speed' ! Y_AXIS);
                   dsz = \<bar>float_sub csz (previous_speed' ! Z_AXIS)\<bar>;
                   dse = \<bar>float_sub cse (previous_speed' ! E_AXIS)\<bar>;
                   jerk = float_sqrt (float_add (float_mul dsx dsx) (float_mul dsy dsy));
                   vmax_junction = nominal_speed';
                   vmax_junction_factor =
                     (if jerk > max_xy_jerk cfg then float_div (max_xy_jerk cfg) jerk
                      else vmax_junction_factor);
                   vmax_junction_factor =
                     (if dsz > max_z_jerk cfg
                      then min vmax_junction_factor (float_div (max_z_jerk cfg) dsz)
                      else vmax_junction_factor);
                   vmax_junction_factor =
                     (if dse > max_e_jerk cfg ! extruder
                      then min vmax_junction_factor (float_div (max_e_jerk cfg ! extruder) dse)
                      else vmax_junction_factor)
               in (min previous_nominal_speed' (float_mul vmax_junction vmax_junction_factor),
                   safe_speed))
         else (vmax_junction, safe_speed))"

text \<open>
  The block as it stands at line 1157, before its trapezoid is solved, with the
  locals \<^verbatim>\<open>current_speed\<close> and \<^verbatim>\<open>safe_speed\<close>.  \<open>old\<close> is the content of the slot
  \<^verbatim>\<open>block_buffer[block_buffer_head]\<close>, of which every field is overwritten here or by
  the solver (the slot is not busy).  \<open>d\<close> are the deltas in steps, \<open>buffer_size\<close> is
  \<^verbatim>\<open>BLOCK_BUFFER_SIZE\<close>.  \<^verbatim>\<open>nominal_rate *= speed_factor\<close> converts an unsigned
  integer to \<^verbatim>\<open>float\<close>, multiplies and truncates the rounded product.
\<close>

definition new_block ::
    "config \<Rightarrow> nat \<Rightarrow> nat \<Rightarrow> real list \<Rightarrow> real \<Rightarrow> block_t \<Rightarrow> int list \<Rightarrow> real \<Rightarrow> nat \<Rightarrow> nat
       \<Rightarrow> block_t \<times> real list \<times> real" where
  "new_block cfg buffer_size moves_queued previous_speed' previous_nominal_speed' old d feed_rate
       extruder driver =
     (let st = block_steps cfg extruder d;
          count = block_step_event_count st;
          feed_rate = floored_feed_rate cfg st feed_rate;
          delta_mm = block_delta_mm cfg extruder d;
          mm = block_millimeters cfg st delta_mm;
          inverse_second = block_inverse_second cfg buffer_size moves_queued mm feed_rate;
          nominal_speed0 = float_mul mm inverse_second;
          nominal_rate0 = nat \<lceil>float_mul (float_of_nat count) inverse_second\<rceil>;
          current_speed0 = map (\<lambda>v. float_mul v inverse_second) delta_mm;
          speed_factor = block_speed_factor cfg current_speed0;
          current_speed = (if speed_factor < 1
                           then map (\<lambda>v. float_mul v speed_factor) current_speed0
                           else current_speed0);
          nominal_speed1 = (if speed_factor < 1 then float_mul nominal_speed0 speed_factor
                            else nominal_speed0);
          nominal_rate1 = (if speed_factor < 1
                           then nat (trunc (float_mul (float_of_nat nominal_rate0) speed_factor))
                           else nominal_rate0);
          steps_per_mm = float_div (float_of_nat count) mm;
          acc_st = block_acceleration_st cfg extruder st count mm;
          acc = float_div (float_of_nat acc_st) steps_per_mm;
          (vmax_junction, safe_speed) =
             block_junction_speed cfg extruder moves_queued current_speed nominal_speed1
               previous_speed' previous_nominal_speed';
          v_allowable = max_allowable_speed (- acc) (MINIMUM_PLANNER_SPEED cfg) mm
      in (old\<lparr>busy := False,
               steps := st,
               step_event_count := count,
               fan_speed := fanSpeed cfg,
               direction_bits := block_direction_bits d,
               active_driver := driver,
               millimeters := mm,
               nominal_speed := nominal_speed1,
               nominal_rate := nominal_rate1,
               acceleration_st := acc_st,
               acceleration := acc,
               acceleration_rate :=
                 trunc (float_div (float_mul (float_of_nat acc_st) 16777216)
                                  (float_div (float_of_nat (F_CPU cfg)) 8)),
               max_entry_speed := vmax_junction,
               entry_speed := min vmax_junction v_allowable,
               nominal_length_flag := (nominal_speed1 \<le> v_allowable),
               recalculate_flag := True\<rparr>,
          current_speed, safe_speed))"

text \<open>
  \<^verbatim>\<open>plan_buffer_line\<close>.  While the ring is full the function waits in \<^verbatim>\<open>idle()\<close> for the
  stepper to take a block; the model returns \<open>None\<close> for a call on a full ring.  The
  slot at \<open>head\<close> is written before the test of line 611, so a dropped move leaves its
  step counts there.  The hardware calls (enabling the drivers, \<^verbatim>\<open>st_wake_up\<close>) are not
  part of the state.
\<close>

definition plan_buffer_line ::
    "config \<Rightarrow> real \<Rightarrow> real \<Rightarrow> real \<Rightarrow> real \<Rightarrow> real \<Rightarrow> nat \<Rightarrow> nat \<Rightarrow> 'a::len planner
       \<Rightarrow> 'a planner option" where
  "plan_buffer_line cfg x y z e feed_rate extruder driver s =
     (let next_buffer_head = next_block_index (block_buffer_head s)
      in if block_buffer_tail s = next_buffer_head then None
         else
          (let target = target_steps cfg x y z e extruder;
               d = step_deltas target (position s);
               old = block_buffer s (block_buffer_head s);
               st = block_steps cfg extruder d;
               count = block_step_event_count st
           in if count \<le> DROP_SEGMENTS cfg
              then Some (s\<lparr>block_buffer := (block_buffer s)
                             (block_buffer_head s :=
                                old\<lparr>busy := False, steps := st, step_event_count := count\<rparr>)\<rparr>)
              else
               (let (block, current_speed, safe_speed) =
                      new_block cfg (2 ^ LENGTH('a)) (movesplanned s) (previous_speed s)
                        (previous_nominal_speed s) old d feed_rate extruder driver;
                    block = calculate_trapezoid_for_block block
                              (float_div (entry_speed block) (nominal_speed block))
                              (float_div safe_speed (nominal_speed block))
                in Some (planner_recalculate cfg
                     (s\<lparr>block_buffer := (block_buffer s)(block_buffer_head s := block),
                        block_buffer_head := next_buffer_head,
                        position := target,
                        previous_speed := current_speed,
                        previous_nominal_speed := nominal_speed block\<rparr>)))))"

text \<open>\<^verbatim>\<open>plan_set_position\<close>, without its call of \<^verbatim>\<open>st_set_position\<close>.\<close>

definition plan_set_position ::
    "config \<Rightarrow> real \<Rightarrow> real \<Rightarrow> real \<Rightarrow> real \<Rightarrow> nat \<Rightarrow> 'a::len planner \<Rightarrow> 'a planner" where
  "plan_set_position cfg x y z e active_extruder s =
     s\<lparr>position := target_steps cfg x y z e active_extruder,
       previous_nominal_speed := 0,
       previous_speed := [0, 0, 0, 0]\<rparr>"

section \<open>The stepper interrupt (\<^verbatim>\<open>stepper.cpp\<close>)\<close>

text \<open>
  The variables of \<^verbatim>\<open>stepper.cpp\<close> that the interrupt handler reads and writes in the
  modelled build.  \<open>current_block\<close> points into the planner's ring: it is an index
  (\<open>None\<close> is \<^verbatim>\<open>NULL\<close>).  The timer's compare register \<open>OCR1A\<close> is kept as the
  handler's output.
\<close>

record (overloaded) 'a stepper =
  current_block :: "'a word option"
  out_bits :: "8 word"
  cleaning_buffer_counter :: nat
  counter_x :: int
  counter_y :: int
  counter_z :: int
  counter_e :: int
  step_events_completed :: nat
  acceleration_time :: int
  deceleration_time :: int
  acc_step_rate :: "16 word"
  step_loops :: nat
  step_loops_nominal :: nat
  OCR1A_nominal :: "16 word"
  OCR1A :: "16 word"
  endstops_trigsteps :: "int list"
  endstop_hit_bits :: "8 word"
  old_endstop_bits :: "8 word"
  check_endstops :: bool
  count_position :: "int list"
  count_direction :: "int list"

text \<open>
  What one run of the handler reads from the hardware: for every endstop whether its
  pin is at the active level (\<^verbatim>\<open>READ(pin) != INVERTING\<close>), and the timer's counter.
\<close>

record isr_input =
  X_MIN_pin :: bool
  X_MAX_pin :: bool
  Y_MIN_pin :: bool
  Y_MAX_pin :: bool
  Z_MIN_pin :: bool
  Z_MAX_pin :: bool
  TCNT1 :: "16 word"

text \<open>
  Modelled from the spec: the bit numbers of \<^verbatim>\<open>enum EndstopEnum\<close>, declared outside
  the sources (\<open>endstop_hit_bits\<close> ``uses X_MIN, Y_MIN, Z_MIN and Z_PROBE as BIT
  value'').
\<close>

definition X_MIN :: nat where "X_MIN = 0"
definition Y_MIN :: nat where "Y_MIN = 1"
definition Z_MIN :: nat where "Z_MIN = 2"
definition X_MAX :: nat where "X_MAX = 4"
definition Y_MAX :: nat where "Y_MAX = 5"
definition Z_MAX :: nat where "Z_MAX = 6"

text \<open>The macros \<^verbatim>\<open>TEST\<close>, \<^verbatim>\<open>SBI\<close> and \<^verbatim>\<open>SET_BIT\<close>.\<close>

definition TEST :: "8 word \<Rightarrow> nat \<Rightarrow> bool" where
  "TEST n b = bit n b"

definition SBI :: "8 word \<Rightarrow> nat \<Rightarrow> 8 word" where
  "SBI n b = n OR push_bit b 1"

definition SET_BIT :: "8 word \<Rightarrow> nat \<Rightarrow> bool \<Rightarrow> 8 word" where
  "SET_BIT n b val = (if val then set_bit b n else unset_bit b n)"

text \<open>
  \<^verbatim>\<open>UPDATE_ENDSTOP(AXIS, MINMAX)\<close> for the cartesian build.  \<open>endstop\<close> is the bit
  \<^verbatim>\<open>AXIS_MINMAX\<close>, \<open>hit\<close> the bit \<^verbatim>\<open>AXIS_MIN\<close> that \<^verbatim>\<open>_ENDSTOP_HIT\<close> sets for both
  sides, \<open>pin\<close> the level read, \<open>block\<close> the current block.  The state is the pair of
  the local \<^verbatim>\<open>current_endstop_bits\<close> and the stepper's variables.
\<close>

definition UPDATE_ENDSTOP ::
    "nat \<Rightarrow> nat \<Rightarrow> nat \<Rightarrow> bool \<Rightarrow> block_t \<Rightarrow> 8 word \<times> 'a::len stepper \<Rightarrow> 8 word \<times> 'a stepper" where
  "UPDATE_ENDSTOP axis endstop hit pin block cs =
     (let current_endstop_bits = SET_BIT (fst cs) endstop pin;
          st = snd cs
      in if (TEST current_endstop_bits endstop \<and> TEST (old_endstop_bits st) endstop)
              \<and> steps block ! axis > 0
         then (current_endstop_bits,
               st\<lparr>endstops_trigsteps := (endstops_trigsteps st)[axis := count_position st ! axis],
                  endstop_hit_bits := SBI (endstop_hit_bits st) hit,
                  step_events_completed := step_event_count block\<rparr>)
         else (current_endstop_bits, st))"

definition update_endstops ::
    "config \<Rightarrow> isr_input \<Rightarrow> block_t \<Rightarrow> 'a::len stepper \<Rightarrow> 'a stepper" where
  "update_endstops cfg inp block st =
     (let cs = (0, st);
          cs = (if TEST (out_bits st) X_AXIS
                then (if HAS_X_MIN cfg then UPDATE_ENDSTOP X_AXIS X_MIN X_MIN (X_MIN_pin inp) block cs
                      else cs)
                else (if HAS_X_MAX cfg then UPDATE_ENDSTOP X_AXIS X_MAX X_MIN (X_MAX_pin inp) block cs
                      else cs));
          cs = (if TEST (out_bits st) Y_AXIS
                then (if HAS_Y_MIN cfg then UPDATE_ENDSTOP Y_AXIS Y_MIN Y_MIN (Y_MIN_pin inp) block cs
                      else cs)
                else (if HAS_Y_MAX cfg then UPDATE_ENDSTOP Y_AXIS Y_MAX Y_MIN (Y_MAX_pin inp) block cs
                      else cs));
          cs = (if TEST (out_bits st) Z_AXIS
                then (if HAS_Z_MIN cfg then UPDATE_ENDSTOP Z_AXIS Z_MIN Z_MIN (Z_MIN_pin inp) block cs
                      else cs)
                else (if HAS_Z_MAX cfg then UPDATE_ENDSTOP Z_AXIS Z_MAX Z_MIN (Z_MAX_pin inp) block cs
                      else cs))
      in (snd cs)\<lparr>old_endstop_bits := fst cs\<rparr>)"

text \<open>\<^verbatim>\<open>set_stepper_direction()\<close>, all four axes.\<close>

definition set_stepper_direction :: "'a::len stepper \<Rightarrow> 'a stepper" where
  "set_stepper_direction st =
     st\<lparr>count_direction :=
          [if TEST (out_bits st) X_AXIS then - 1 else 1,
           if TEST (out_bits st) Y_AXIS then - 1 else 1,
           if TEST (out_bits st) Z_AXIS then - 1 else 1,
           if TEST (out_bits st) E_AXIS then - 1 else 1]\<rparr>"

text \<open>
  The end of \<^verbatim>\<open>st_init\<close>: \<^verbatim>\<open>enable_endstops(true)\<close> and \<^verbatim>\<open>set_stepper_direction()\<close>,
  on the variables as their initialisers leave them.
\<close>

definition st_init :: "'a::len stepper \<Rightarrow> 'a stepper" where
  "st_init st = set_stepper_direction (st\<lparr>check_endstops := True\<rparr>)"

text \<open>The rates of a block are \<^verbatim>\<open>unsigned long\<close>; the stepper keeps 16 bits of them.\<close>

definition trapezoid_generator_reset :: "config \<Rightarrow> block_t \<Rightarrow> 'a::len stepper \<Rightarrow> 'a stepper" where
  "trapezoid_generator_reset cfg block st =
     (let st = (if direction_bits block \<noteq> out_bits st
                then set_stepper_direction (st\<lparr>out_bits := direction_bits block\<rparr>)
                else st);
          (nominal, loops) = calc_timer cfg (of_nat (nominal_rate block));
          acc_step_rate' = (of_nat (initial_rate block) :: 16 word);
          (timer, loops') = calc_timer cfg acc_step_rate'
      in st\<lparr>deceleration_time := 0,
            OCR1A_nominal := nominal,
            step_loops_nominal := loops,
            acc_step_rate := acc_step_rate',
            acceleration_time := uint timer,
            step_loops := loops',
            OCR1A := timer\<rparr>)"

text \<open>
  One pass through the body of the step loop: \<^verbatim>\<open>STEP_START\<close> and \<^verbatim>\<open>STEP_END\<close> for
  the four axes, then \<^verbatim>\<open>step_events_completed++\<close>.  \<open>bresenham\<close> is the pair of
  macros for one axis, on its counter and its position.
\<close>

definition bresenham :: "int \<Rightarrow> nat \<Rightarrow> int \<Rightarrow> int \<times> int \<Rightarrow> int \<times> int" where
  "bresenham axis_steps count direction cp =
     (let counter = fst cp + axis_steps
      in if counter > 0 then (counter - int count, snd cp + direction)
         else (counter, snd cp))"

definition step_event :: "block_t \<Rightarrow> 'a::len stepper \<Rightarrow> 'a stepper" where
  "step_event block st =
     (let n = step_event_count block;
          x = bresenham (steps block ! X_AXIS) n (count_direction st ! X_AXIS)
                (counter_x st, count_position st ! X_AXIS);
          y = bresenham (steps block ! Y_AXIS) n (count_direction st ! Y_AXIS)
                (counter_y st, count_position st ! Y_AXIS);
          z = bresenham (steps block ! Z_AXIS) n (count_direction st ! Z_AXIS)
                (counter_z st, count_position st ! Z_AXIS);
          e = bresenham (steps block ! E_AXIS) n (count_direction st ! E_AXIS)
                (counter_e st, count_position st ! E_AXIS)
      in st\<lparr>counter_x := fst x, counter_y := fst y, counter_z := fst z, counter_e := fst e,
            count_position := [snd x, snd y, snd z, snd e],
            step_events_completed := step_events_completed st + 1\<rparr>)"

text \<open>
  \<^verbatim>\<open>for (i = 0; i < step_loops; i++) { ...; if (step_events_completed >= step_event_count) break; }\<close>
  with \<open>n\<close> passes left.
\<close>

fun step_loop :: "block_t \<Rightarrow> nat \<Rightarrow> 'a::len stepper \<Rightarrow> 'a stepper" where
  "step_loop block 0 st = st"
| "step_loop block (Suc n) st =
     (let st = step_event block st
      in if step_events_completed st \<ge> step_event_count block then st
         else step_loop block n st)"

text \<open>
  The new timer value (lines 841 to 914).  \<^verbatim>\<open>(unsigned long)accelerate_until\<close> wraps a
  negative value.
\<close>

definition next_timer :: "config \<Rightarrow> isr_input \<Rightarrow> block_t \<Rightarrow> 'a::len stepper \<Rightarrow> 'a stepper" where
  "next_timer cfg inp block st =
     (let st =
        (if step_events_completed st \<le> nat (accelerate_until block mod 2 ^ 32)
         then (let acc_step_rate' = MultiU24X32toH16 (of_int (acceleration_time st))
                                      (of_int (acceleration_rate block));
                   acc_step_rate' = acc_step_rate' + of_nat (initial_rate block);
                   acc_step_rate' = (if unat acc_step_rate' > nominal_rate block
                                     then of_nat (nominal_rate block) else acc_step_rate');
                   (timer, loops) = calc_timer cfg acc_step_rate'
               in st\<lparr>acc_step_rate := acc_step_rate', step_loops := loops, OCR1A := timer,
                     acceleration_time := acceleration_time st + uint timer\<rparr>)
         else if step_events_completed st > nat (decelerate_after block mod 2 ^ 32)
         then (let step_rate = MultiU24X32toH16 (of_int (deceleration_time st))
                                 (of_int (acceleration_rate block));
                   step_rate =
                     (if step_rate \<le> acc_step_rate st
                      then (let step_rate = acc_step_rate st - step_rate
                            in if unat step_rate < final_rate block
                               then of_nat (final_rate block) else step_rate)
                      else of_nat (final_rate block));
                   (timer, loops) = calc_timer cfg step_rate
               in st\<lparr>step_loops := loops, OCR1A := timer,
                     deceleration_time := deceleration_time st + uint timer\<rparr>)
         else st\<lparr>OCR1A := OCR1A_nominal st, step_loops := step_loops_nominal st\<rparr>)
      in st\<lparr>OCR1A := (if OCR1A st < TCNT1 inp + 16 then TCNT1 inp + 16 else OCR1A st)\<rparr>)"

text \<open>
  The handler \<^verbatim>\<open>ISR(TIMER1_COMPA_vect)\<close>, on the planner's and the stepper's state.
\<close>

definition isr_latch :: "config \<Rightarrow> 'a::len planner \<times> 'a stepper \<Rightarrow> 'a planner \<times> 'a stepper" where
  "isr_latch cfg ps =
     (let (cb, p) = plan_get_current_block (fst ps);
          st = (snd ps)\<lparr>current_block := cb\<rparr>
      in case cb of
           None \<Rightarrow> (p, st\<lparr>OCR1A := 2000\<rparr>)
         | Some b \<Rightarrow>
            (let p = p\<lparr>block_buffer := (block_buffer p)(b := (block_buffer p b)\<lparr>busy := True\<rparr>)\<rparr>;
                 block = block_buffer p b;
                 st = trapezoid_generator_reset cfg block st;
                 new_count = - (int (step_event_count block div 2))
             in (p, st\<lparr>counter_x := new_count, counter_y := new_count,
                        counter_z := new_count, counter_e := new_count,
                        step_events_completed := 0\<rparr>)))"

definition isr :: "config \<Rightarrow> isr_input \<Rightarrow> 'a::len planner \<times> 'a stepper \<Rightarrow> 'a planner \<times> 'a stepper" where
  "isr cfg inp ps =
     (if cleaning_buffer_counter (snd ps) \<noteq> 0
      then (plan_discard_current_block (fst ps),
            (snd ps)\<lparr>current_block := None,
                      cleaning_buffer_counter := cleaning_buffer_counter (snd ps) - 1,
                      OCR1A := 200\<rparr>)
      else
       (let (p, st) = (if current_block (snd ps) = None then isr_latch cfg ps else ps)
        in case current_block st of
             None \<Rightarrow> (p, st)
           | Some b \<Rightarrow>
              (let block = block_buffer p b;
                   st = (if check_endstops st then update_endstops cfg inp block st else st);
                   st = step_loop block (step_loops st) st;
                   st = next_timer cfg inp block st
               in if step_events_completed st \<ge> step_event_count block
                  then (plan_discard_current_block p, st\<lparr>current_block := None\<rparr>)
                  else (p, st))))"


section \<open>Notions used to state the stepper's properties\<close>

text \<open>
  \<open>directions_latched\<close>: the array \<^verbatim>\<open>count_direction\<close> is what
  \<^verbatim>\<open>set_stepper_direction\<close> derives from \<^verbatim>\<open>out_bits\<close>.  \<^verbatim>\<open>st_init\<close> establishes it and
  the handler keeps it.
\<close>

definition directions_latched :: "'a::len stepper \<Rightarrow> bool" where
  "directions_latched st = (count_direction st = count_direction (set_stepper_direction st))"


text \<open>The counter and the position of one axis.\<close>

definition axis_counter :: "'a::len stepper \<Rightarrow> nat \<Rightarrow> int" where
  "axis_counter st a =
     (if a = X_AXIS then counter_x st else if a = Y_AXIS then counter_y st
      else if a = Z_AXIS then counter_z st else counter_e st)"

definition axis_state :: "'a::len stepper \<Rightarrow> nat \<Rightarrow> int \<times> int" where
  "axis_state st a = (axis_counter st a, count_position st ! a)"


text \<open>
  The condition under which the endstop of axis \<open>a\<close> (X, Y or Z) triggers in a run of
  the handler: the block moves the axis towards the minimum (its bit of \<open>out_bits\<close> is
  set) or the maximum, the board has that endstop, its pin is at the active level now
  and was at the last sample (the two-sample debounce), and the block has steps on the
  axis.
\<close>

definition axis_endstop_triggered ::
    "config \<Rightarrow> isr_input \<Rightarrow> block_t \<Rightarrow> 'a::len stepper \<Rightarrow> nat \<Rightarrow> bool" where
  "axis_endstop_triggered cfg inp block st a =
     ((if a = X_AXIS
       then (if TEST (out_bits st) X_AXIS
             then HAS_X_MIN cfg \<and> X_MIN_pin inp \<and> TEST (old_endstop_bits st) X_MIN
             else HAS_X_MAX cfg \<and> X_MAX_pin inp \<and> TEST (old_endstop_bits st) X_MAX)
       else if a = Y_AXIS
       then (if TEST (out_bits st) Y_AXIS
             then HAS_Y_MIN cfg \<and> Y_MIN_pin inp \<and> TEST (old_endstop_bits st) Y_MIN
             else HAS_Y_MAX cfg \<and> Y_MAX_pin inp \<and> TEST (old_endstop_bits st) Y_MAX)
       else if a = Z_AXIS
       then (if TEST (out_bits st) Z_AXIS
             then HAS_Z_MIN cfg \<and> Z_MIN_pin inp \<and> TEST (old_endstop_bits st) Z_MIN
             else HAS_Z_MAX cfg \<and> Z_MAX_pin inp \<and> TEST (old_endstop_bits st) Z_MAX)
       else False)
      \<and> steps block ! a > 0)"



text \<open>The bit of \<open>endstop_hit_bits\<close> that \<^verbatim>\<open>_ENDSTOP_HIT\<close> sets for an axis.\<close>

definition axis_hit_bit :: "nat \<Rightarrow> nat" where
  "axis_hit_bit a = (if a = X_AXIS then X_MIN else if a = Y_AXIS then Y_MIN else Z_MIN)"


section \<open>Notions used to state the planner's properties\<close>

text \<open>The ring is full: \<^verbatim>\<open>plan_buffer_line\<close> would wait.\<close>

definition ring_full :: "'a::len planner \<Rightarrow> bool" where
  "ring_full s = (block_buffer_tail s = next_block_index (block_buffer_head s))"

text \<open>
  The deltas \<^verbatim>\<open>dx, dy, dz, de\<close> of a call of \<^verbatim>\<open>plan_buffer_line\<close> (lines 531 to 534),
  and the \<^verbatim>\<open>step_event_count\<close> it computes from them (line 607).
\<close>

definition move_deltas :: "config \<Rightarrow> real \<Rightarrow> real \<Rightarrow> real \<Rightarrow> real \<Rightarrow> nat \<Rightarrow> 'a::len planner \<Rightarrow> int list" where
  "move_deltas cfg x y z e extruder s =
     step_deltas (target_steps cfg x y z e extruder) (position s)"

definition move_step_event_count ::
    "config \<Rightarrow> real \<Rightarrow> real \<Rightarrow> real \<Rightarrow> real \<Rightarrow> nat \<Rightarrow> 'a::len planner \<Rightarrow> nat" where
  "move_step_event_count cfg x y z e extruder s =
     block_step_event_count (block_steps cfg extruder (move_deltas cfg x y z e extruder s))"

text \<open>
  \<open>replanned b b'\<close>: \<open>b'\<close> is \<open>b\<close> but for the fields that the lookahead passes and
  the trapezoid solver write.
\<close>

definition replanned :: "block_t \<Rightarrow> block_t \<Rightarrow> bool" where
  "replanned b b' =
     (b' = b\<lparr>entry_speed := entry_speed b', recalculate_flag := recalculate_flag b',
             initial_rate := initial_rate b', final_rate := final_rate b',
             accelerate_until := accelerate_until b', decelerate_after := decelerate_after b'\<rparr>)"



text \<open>
  The block in the slot at the old \<open>head\<close> when \<^verbatim>\<open>plan_buffer_line\<close> has returned:
  the appended block after \<^verbatim>\<open>planner_recalculate\<close>, or what a dropped move left in
  the slot.  \<open>None\<close> for a call on a full ring.
\<close>

definition planned_block ::
    "config \<Rightarrow> real \<Rightarrow> real \<Rightarrow> real \<Rightarrow> real \<Rightarrow> real \<Rightarrow> nat \<Rightarrow> nat \<Rightarrow> 'a::len planner
       \<Rightarrow> block_t option" where
  "planned_block cfg x y z e feed_rate extruder driver s =
     (case plan_buffer_line cfg x y z e feed_rate extruder driver s of
        None \<Rightarrow> None
      | Some s' \<Rightarrow> Some (block_buffer s' (block_buffer_head s)))"

section \<open>Concrete inputs\<close>

text \<open>
  Blocks and states on which the theorems below are instantiated.  \<open>cruise_block\<close> is
  the 10 mm X move of the spec's first boundary scenario (800 steps, 4800 steps/s,
  1000 mm/s^2 at 80 steps/mm); \<open>short_block\<close> is the same move cut to 100 steps, too
  short to reach its nominal rate; \<open>slow_block\<close> is a 10-step move whose nominal rate,
  100 steps/s, lies below the floor of 120 steps/s.
\<close>

definition cruise_block :: block_t where
  "cruise_block =
     \<lparr>steps = [800, 0, 0, 0], step_event_count = 800, accelerate_until = 0,
      decelerate_after = 0, acceleration_rate = 671088, direction_bits = 0,
      active_driver = 0, nominal_speed = 60, entry_speed = 10, max_entry_speed = 10,
      millimeters = 10, acceleration = 1000, recalculate_flag = True,
      nominal_length_flag = False, nominal_rate = 4800, initial_rate = 0, final_rate = 0,
      acceleration_st = 80000, fan_speed = 0, busy = False\<rparr>"

definition short_block :: block_t where
  "short_block = cruise_block\<lparr>steps := [100, 0, 0, 0], step_event_count := 100,
     millimeters := 5 / 4\<rparr>"

definition slow_block :: block_t where
  "slow_block = cruise_block\<lparr>steps := [10, 0, 0, 0], step_event_count := 10,
     millimeters := 1 / 8, nominal_speed := 5 / 4, nominal_rate := 100,
     acceleration_st := 1000, acceleration := 25 / 2\<rparr>"

text \<open>
  A configuration: the values of the spec's boundary scenarios (80 steps/mm and
  300 mm/s on X and Y, 1000 mm/s^2, a jerk of 20 mm/s, a minimum planner speed of
  0.05 mm/s), a 16 MHz clock, and lookup tables that hold the period
  \<open>2000000 / rate\<close> and its decrease to the next row.  The two \<^verbatim>\<open>float\<close>s that
  are not binary32 numbers as written are rounded to the nearest one, as the compiler
  does.
\<close>

definition example_config :: config where
  "example_config =
     \<lparr>DROP_SEGMENTS = 5, MINIMUM_PLANNER_SPEED = float_round (1 / 20), SLOWDOWN = True,
      F_CPU = 16000000, MAX_STEP_FREQUENCY = 40000, DOUBLE_STEP_FREQUENCY = 10000,
      speed_lookuptable_fast =
        (\<lambda>i. (of_nat (2000000 div (32 + 256 * i)),
              of_nat (2000000 div (32 + 256 * i) - 2000000 div (32 + 256 * (i + 1))))),
      speed_lookuptable_slow =
        (\<lambda>i. (of_nat (2000000 div (32 + 8 * i)),
              of_nat (2000000 div (32 + 8 * i) - 2000000 div (32 + 8 * (i + 1))))),
      HAS_X_MIN = True, HAS_X_MAX = True, HAS_Y_MIN = True, HAS_Y_MAX = True,
      HAS_Z_MIN = True, HAS_Z_MAX = True,
      minsegmenttime = 20000,
      max_feedrate = [300, 300, 5, 25],
      axis_steps_per_unit = [80, 80, 4000, 500],
      minimumfeedrate = 0,
      acceleration = 1000,
      retract_acceleration = [3000],
      travel_acceleration = 3000,
      max_xy_jerk = 20,
      max_z_jerk = float_round (2 / 5),
      max_e_jerk = [5],
      mintravelfeedrate = 0,
      axis_steps_per_sqr_second = [240000, 240000, 400000, 5000000],
      volumetric_multiplier = [1],
      extruder_multiplier = [100],
      fanSpeed = 0\<rparr>"

text \<open>
  The stepper's variables after \<^verbatim>\<open>st_init\<close>, and two rings of 16 slots that hold one
  block each: \<open>jog_block\<close> moves X by 8 steps, Y by 6 steps backwards and E by 3
  steps; \<open>homing_block\<close> moves X by 10 steps backwards.
\<close>

definition example_stepper :: "4 stepper" where
  "example_stepper = st_init
     \<lparr>current_block = None, out_bits = 0, cleaning_buffer_counter = 0,
      counter_x = 0, counter_y = 0, counter_z = 0, counter_e = 0,
      step_events_completed = 0, acceleration_time = 0, deceleration_time = 0,
      acc_step_rate = 0, step_loops = 0, step_loops_nominal = 0, OCR1A_nominal = 0,
      OCR1A = 0, endstops_trigsteps = [0, 0, 0], endstop_hit_bits = 0,
      old_endstop_bits = 0, check_endstops = True, count_position = [0, 0, 0, 0],
      count_direction = [1, 0, 0, 0]\<rparr>"

definition jog_block :: block_t where
  "jog_block = cruise_block\<lparr>steps := [8, 6, 0, 3], step_event_count := 8,
     direction_bits := 2, accelerate_until := 3, decelerate_after := 5,
     initial_rate := 800, final_rate := 800\<rparr>"

definition homing_block :: block_t where
  "homing_block = cruise_block\<lparr>steps := [10, 0, 0, 0], step_event_count := 10,
     direction_bits := 1, accelerate_until := 4, decelerate_after := 6,
     initial_rate := 800, final_rate := 800\<rparr>"

definition jog_ring :: "4 planner" where
  "jog_ring =
     \<lparr>block_buffer = (\<lambda>i. if i = 0 then jog_block else cruise_block),
      block_buffer_head = 1, block_buffer_tail = 0,
      position = [8, - 6, 0, 3], previous_speed = [0, 0, 0, 0],
      previous_nominal_speed = 0\<rparr>"

definition homing_ring :: "4 planner" where
  "homing_ring = jog_ring\<lparr>block_buffer := (\<lambda>i. if i = 0 then homing_block else cruise_block),
     position := [- 10, 0, 0, 0]\<rparr>"

text \<open>What the handler reads: no endstop active, and the X-min endstop active.\<close>

definition quiet_input :: isr_input where
  "quiet_input = \<lparr>X_MIN_pin = False, X_MAX_pin = False, Y_MIN_pin = False,
     Y_MAX_pin = False, Z_MIN_pin = False, Z_MAX_pin = False, TCNT1 = 0\<rparr>"

definition x_min_input :: isr_input where
  "x_min_input = quiet_input\<lparr>X_MIN_pin := True\<rparr>"

text \<open>
  The stepper one run of the handler into \<open>homing_block\<close>, when that run has sampled
  the X-min endstop active: one step made, the sample kept in \<open>old_endstop_bits\<close>.
\<close>

definition homing_stepper :: "4 stepper" where
  "homing_stepper = example_stepper
     \<lparr>current_block := Some 0, out_bits := 1, counter_x := - 5, counter_y := - 5,
      counter_z := - 5, counter_e := - 5, step_events_completed := 1, step_loops := 1,
      step_loops_nominal := 1, old_endstop_bits := 1, count_position := [- 1, 0, 0, 0],
      count_direction := [- 1, 1, 1, 1]\<rparr>"

text \<open>An empty ring of 16 slots, the planner at the origin and at rest.\<close>

definition idle_ring :: "4 planner" where
  "idle_ring =
     \<lparr>block_buffer = (\<lambda>i. cruise_block), block_buffer_head = 0, block_buffer_tail = 0,
      position = [0, 0, 0, 0], previous_speed = [0, 0, 0, 0], previous_nominal_speed = 0\<rparr>"

text \<open>The configuration with the maximum feed rate of X lowered to 0.01 mm/s.\<close>

definition slow_axis_config :: config where
  "slow_axis_config = example_config\<lparr>max_feedrate := [1 / 128, 300, 5, 25]\<rparr>"

section \<open>Properties of the rounding to binary32\<close>

lemma round_even_of_int [simp]: "round_even (of_int n) = n"
  by (simp add: round_even_def)

lemma round_even_numeral [simp]: "round_even (numeral n) = numeral n"
  using round_even_of_int [of "numeral n"] by simp

lemma round_even_0 [simp]: "round_even 0 = 0"
  using round_even_of_int [of 0] by simp

lemma round_even_1 [simp]: "round_even 1 = 1"
  using round_even_of_int [of 1] by simp

lemma round_even_bounds: "\<lfloor>y\<rfloor> \<le> round_even y" "round_even y \<le> \<lfloor>y\<rfloor> + 1"
  by (simp_all add: round_even_def Let_def)

lemma round_even_mono:
  assumes "x \<le> y"
  shows "round_even x \<le> round_even y"
proof (cases "\<lfloor>x\<rfloor> = \<lfloor>y\<rfloor>")
  case True
  then show ?thesis using assms by (auto simp add: round_even_def Let_def)
next
  case False
  then have "\<lfloor>x\<rfloor> < \<lfloor>y\<rfloor>" using assms floor_mono [of x y] by linarith
  then show ?thesis
    using round_even_bounds(2) [of x] round_even_bounds(1) [of y] by linarith
qed

lemma round_even_nonneg: "0 \<le> y \<Longrightarrow> 0 \<le> round_even y"
  using round_even_mono [of 0 y] by simp

lemma float_ulp_pos [simp]: "0 < float_ulp x" "0 \<le> float_ulp x" "float_ulp x \<noteq> 0"
  by (simp_all add: float_ulp_def)

lemma float_round_0 [simp]: "float_round 0 = 0"
  by (simp add: float_round_def)

lemma float_round_minus: "float_round (- x) = - float_round x"
  by (simp add: float_round_def float_ulp_def float_exponent_def sgn_minus)

lemma float_round_nonneg:
  assumes "0 \<le> x"
  shows "0 \<le> float_round x"
proof (cases "x = 0")
  case True
  then show ?thesis by simp
next
  case False
  have "0 \<le> x / float_ulp x" using assms by simp
  then have "0 \<le> round_even (x / float_ulp x)" by (rule round_even_nonneg)
  then have "0 \<le> real_of_int (round_even (x / float_ulp x)) * float_ulp x" by simp
  then show ?thesis using assms False by (simp add: float_round_def)
qed

lemma float_round_pos_eq:
  "0 < x \<Longrightarrow> float_round x = of_int (round_even (x / float_ulp x)) * float_ulp x"
  by (simp add: float_round_def)

lemma float_exponent_eq:
  assumes "2 powr of_int e \<le> \<bar>x\<bar>" "\<bar>x\<bar> < 2 powr (of_int e + 1)" "- 126 \<le> e"
  shows "float_exponent x = e"
proof -
  have pos: "0 < \<bar>x\<bar>" using assms(1) by (smt (verit) powr_gt_zero)
  have "of_int e \<le> log 2 \<bar>x\<bar>"
    using assms(1) pos by (simp add: le_log_iff)
  moreover have "log 2 \<bar>x\<bar> < of_int e + 1"
    using assms(2) pos by (simp add: log_less_iff)
  ultimately have "\<lfloor>log 2 \<bar>x\<bar>\<rfloor> = e" by linarith
  then show ?thesis using assms(3) by (simp add: float_exponent_def)
qed

lemma float_exponent_bounds:
  assumes "x \<noteq> 0"
  shows "\<bar>x\<bar> < 2 powr (of_int (float_exponent x) + 1)"
    and "- 126 < float_exponent x \<Longrightarrow> 2 powr of_int (float_exponent x) \<le> \<bar>x\<bar>"
proof -
  have pos: "0 < \<bar>x\<bar>" using assms by simp
  have "log 2 \<bar>x\<bar> < of_int \<lfloor>log 2 \<bar>x\<bar>\<rfloor> + 1" by linarith
  also have "\<dots> \<le> of_int (float_exponent x) + 1" by (simp add: float_exponent_def)
  finally show "\<bar>x\<bar> < 2 powr (of_int (float_exponent x) + 1)"
    using pos by (simp add: log_less_iff)
  assume "- 126 < float_exponent x"
  then have "float_exponent x = \<lfloor>log 2 \<bar>x\<bar>\<rfloor>" by (simp add: float_exponent_def max_def split: if_splits)
  then have "of_int (float_exponent x) \<le> log 2 \<bar>x\<bar>" by simp
  then show "2 powr of_int (float_exponent x) \<le> \<bar>x\<bar>"
    using pos by (simp add: le_log_iff)
qed

lemma float_exponent_mono:
  assumes "0 < x" "x \<le> y"
  shows "float_exponent x \<le> float_exponent y"
proof -
  have "log 2 x \<le> log 2 y" using assms by simp
  then have "\<lfloor>log 2 \<bar>x\<bar>\<rfloor> \<le> \<lfloor>log 2 \<bar>y\<bar>\<rfloor>" using assms by (simp add: floor_mono)
  then show ?thesis by (simp add: float_exponent_def)
qed

lemma float_round_mono_pos:
  assumes "0 < x" "x \<le> y"
  shows "float_round x \<le> float_round y"
proof (cases "float_exponent x = float_exponent y")
  case True
  then have u: "float_ulp x = float_ulp y" by (simp add: float_ulp_def)
  have "x / float_ulp y \<le> y / float_ulp y"
    using assms(2) by (simp add: divide_right_mono)
  then have "round_even (x / float_ulp y) \<le> round_even (y / float_ulp y)"
    by (rule round_even_mono)
  then show ?thesis
    using assms by (simp add: float_round_pos_eq u)
next
  case False
  then have lt: "float_exponent x < float_exponent y"
    using float_exponent_mono [OF assms] by simp
  have y0: "0 < y" using assms by simp
  have "x / float_ulp x \<le> 2 ^ 24"
  proof -
    have "x < 2 powr (of_int (float_exponent x) + 1)"
      using float_exponent_bounds(1) [of x] assms by simp
    also have "\<dots> = 2 ^ 24 * float_ulp x"
      by (simp add: float_ulp_def powr_diff powr_add)
    finally show ?thesis by (simp add: pos_divide_le_eq)
  qed
  then have "round_even (x / float_ulp x) \<le> round_even (2 ^ 24)"
    by (rule round_even_mono)
  then have "round_even (x / float_ulp x) \<le> 2 ^ 24"
    using round_even_of_int [of "2 ^ 24"] by simp
  then have "of_int (round_even (x / float_ulp x)) \<le> (2 ^ 24 :: real)"
    by (metis of_int_le_iff of_int_numeral of_int_power)
  then have "float_round x \<le> 2 ^ 24 * float_ulp x"
    using assms by (simp add: float_round_pos_eq)
  also have "\<dots> = 2 powr (of_int (float_exponent x) + 1)"
    by (simp add: float_ulp_def powr_diff powr_add)
  also have "\<dots> \<le> 2 powr of_int (float_exponent y)"
    using lt by simp
  also have "\<dots> = 2 ^ 23 * float_ulp y"
    by (simp add: float_ulp_def powr_diff)
  also have "\<dots> \<le> float_round y"
  proof -
    have "- 126 < float_exponent y"
      using lt by (simp add: float_exponent_def [of x])
    then have "2 powr of_int (float_exponent y) \<le> y"
      using float_exponent_bounds(2) [of y] y0 by simp
    then have "2 ^ 23 * float_ulp y \<le> y"
      by (simp add: float_ulp_def powr_diff)
    then have "2 ^ 23 \<le> y / float_ulp y"
      by (simp add: pos_le_divide_eq)
    then have "round_even (2 ^ 23) \<le> round_even (y / float_ulp y)"
      by (rule round_even_mono)
    then have "2 ^ 23 \<le> round_even (y / float_ulp y)"
      using round_even_of_int [of "2 ^ 23"] by simp
    then have "(2 ^ 23 :: real) \<le> of_int (round_even (y / float_ulp y))"
      by (metis of_int_le_iff of_int_numeral of_int_power)
    then show ?thesis using y0 by (simp add: float_round_pos_eq)
  qed
  finally show ?thesis .
qed

lemma float_round_mono:
  assumes "x \<le> y"
  shows "float_round x \<le> float_round y"
proof -
  consider "0 < x" | "x = 0" | "x < 0" "0 \<le> y" | "x < 0" "y < 0" by linarith
  then show ?thesis
  proof cases
    case 1
    then show ?thesis using assms by (rule float_round_mono_pos)
  next
    case 2
    then show ?thesis using assms float_round_nonneg [of y] by simp
  next
    case 3
    have "float_round (- x) \<ge> 0" using 3 by (intro float_round_nonneg) simp
    then have "float_round x \<le> 0" by (simp add: float_round_minus)
    then show ?thesis using float_round_nonneg [OF 3(2)] by simp
  next
    case 4
    have "float_round (- y) \<le> float_round (- x)"
      using 4 assms by (intro float_round_mono_pos) simp_all
    then show ?thesis by (simp add: float_round_minus)
  qed
qed

lemma float_round_binade:
  assumes "2 powr of_int e \<le> \<bar>x\<bar>" "\<bar>x\<bar> < 2 powr (of_int e + 1)" "- 126 \<le> e"
  shows "float_round x
           = sgn x * (of_int (round_even (\<bar>x\<bar> / 2 powr (of_int e - 23))) * 2 powr (of_int e - 23))"
proof -
  have "x \<noteq> 0" using assms(1) by (smt (verit) powr_gt_zero)
  then show ?thesis
    by (simp add: float_round_def float_ulp_def float_exponent_eq [OF assms])
qed

lemma float_round_exact:
  assumes x: "x = of_int m * 2 powr of_int k" and m: "\<bar>m\<bar> < 2 ^ 24" and k: "- 149 \<le> k"
  shows "float_round x = x"
proof (cases "x = 0")
  case True
  then show ?thesis by simp
next
  case False
  define e where "e = float_exponent x"
  define u where "u = float_ulp x"
  have u: "u = 2 powr (of_int e - 23)" by (simp add: u_def e_def float_ulp_def)
  have a: "\<bar>x\<bar> = of_int \<bar>m\<bar> * 2 powr of_int k"
    by (simp add: x abs_mult)
  have le: "e - 23 \<le> k"
  proof (cases "- 126 < e")
    case True
    have "2 powr of_int e \<le> \<bar>x\<bar>"
      using float_exponent_bounds(2) [OF False] True by (simp add: e_def)
    also have "\<dots> < 2 ^ 24 * 2 powr of_int k"
    proof -
      have "real_of_int \<bar>m\<bar> < 2 ^ 24" using m by (metis of_int_less_iff of_int_numeral of_int_power)
      then show ?thesis unfolding a by simp
    qed
    also have "\<dots> = 2 powr (24 + of_int k)" by (simp add: powr_add)
    finally have "real_of_int e < 24 + of_int k" by simp
    then show ?thesis by linarith
  next
    case False
    then show ?thesis using k by simp
  qed
  define d where "d = nat (k - (e - 23))"
  have "2 powr of_int k = 2 powr (of_int (int d)) * u"
    unfolding u using le by (simp add: d_def flip: powr_add)
  then have pk: "2 powr of_int k = 2 ^ d * u"
    by (simp add: powr_realpow)
  have "\<bar>x\<bar> / u = of_int (\<bar>m\<bar> * 2 ^ d)"
    unfolding a pk using float_ulp_pos [of x] by (simp add: u_def)
  then have "round_even (\<bar>x\<bar> / u) = \<bar>m\<bar> * 2 ^ d"
    by (simp only: round_even_of_int)
  then have "float_round x = sgn x * (of_int (\<bar>m\<bar> * 2 ^ d) * u)"
    using False by (simp add: float_round_def u_def)
  also have "\<dots> = sgn x * \<bar>x\<bar>"
    unfolding a pk by simp
  also have "\<dots> = x" by (simp add: sgn_mult_abs)
  finally show ?thesis .
qed

lemma float_round_of_int:
  assumes "\<bar>n\<bar> \<le> 2 ^ 24"
  shows "float_round (of_int n) = of_int n"
proof (cases "\<bar>n\<bar> = 2 ^ 24")
  case True
  then consider "n = 2 ^ 24" | "n = - (2 ^ 24)" by linarith
  then show ?thesis
  proof cases
    case 1
    show ?thesis
      unfolding 1 by (intro float_round_exact [where m = "2 ^ 23" and k = 1]) simp_all
  next
    case 2
    show ?thesis
      unfolding 2 by (intro float_round_exact [where m = "- (2 ^ 23)" and k = 1]) simp_all
  qed
next
  case False
  then have "\<bar>n\<bar> < 2 ^ 24" using assms by simp
  then show ?thesis by (intro float_round_exact [where m = n and k = 0]) simp_all
qed

lemma float_round_of_nat:
  assumes "n \<le> 2 ^ 24"
  shows "float_round (real n) = real n"
  using float_round_of_int [of "int n"] assms by simp

lemma float_round_idem: "float_round (float_round x) = float_round x"
proof (cases "x = 0")
  case True
  then show ?thesis by simp
next
  case False
  define e where "e = float_exponent x"
  define u where "u = float_ulp x"
  define r where "r = round_even (\<bar>x\<bar> / u)"
  define sg :: int where "sg = (if 0 < x then 1 else - 1)"
  have fr: "float_round x = of_int sg * (of_int r * u)"
    using False by (simp add: float_round_def r_def u_def sgn_if sg_def)
  have u: "u = 2 powr (of_int e - 23)" by (simp add: u_def e_def float_ulp_def)
  have e: "- 126 \<le> e" by (simp add: e_def float_exponent_def)
  have "\<bar>x\<bar> / u \<le> 2 ^ 24"
  proof -
    have "\<bar>x\<bar> < 2 powr (of_int e + 1)"
      using float_exponent_bounds(1) [OF False] by (simp add: e_def)
    also have "\<dots> = 2 ^ 24 * u" by (simp add: u powr_diff powr_add)
    finally show ?thesis using float_ulp_pos [of x] by (simp add: u_def pos_divide_le_eq)
  qed
  then have "r \<le> round_even (2 ^ 24)" unfolding r_def by (rule round_even_mono)
  then have r24: "r \<le> 2 ^ 24" using round_even_of_int [of "2 ^ 24"] by simp
  have r0: "0 \<le> r" unfolding r_def using float_ulp_pos [of x] by (intro round_even_nonneg) (simp add: u_def)
  show ?thesis
  proof (cases "r = 2 ^ 24")
    case True
    have "float_round x = of_int (sg * 2 ^ 23) * 2 powr of_int (e - 22)"
      unfolding fr True u by (simp add: powr_diff)
    moreover have "\<bar>sg * 2 ^ 23\<bar> < (2 ^ 24 :: int)" by (simp add: abs_mult sg_def)
    ultimately show ?thesis
      using e by (intro float_round_exact [where m = "sg * 2 ^ 23" and k = "e - 22"]) simp_all
  next
    case False
    have "float_round x = of_int (sg * r) * 2 powr of_int (e - 23)"
      unfolding fr u by simp
    moreover have "\<bar>sg * r\<bar> < (2 ^ 24 :: int)"
      using r0 r24 False by (simp add: abs_mult sg_def)
    ultimately show ?thesis
      using e by (intro float_round_exact [where m = "sg * r" and k = "e - 23"]) simp_all
  qed
qed

lemma float_round_le:
  assumes "x \<le> float_round y"
  shows "float_round x \<le> float_round y"
  using float_round_mono [OF assms] by (simp add: float_round_idem)

lemma float_round_ge:
  assumes "float_round y \<le> x"
  shows "float_round y \<le> float_round x"
  using float_round_mono [OF assms] by (simp add: float_round_idem)

lemma float_round_1 [simp]: "float_round 1 = 1"
  using float_round_of_int [of 1] by simp

lemma round_even_unique:
  assumes "of_int n - 1 / 2 < y" "y < of_int n + 1 / 2"
  shows "round_even y = n"
proof -
  consider "of_int n \<le> y" | "y < of_int n" by linarith
  then show ?thesis
  proof cases
    case 1
    then have "\<lfloor>y\<rfloor> = n" using assms(2) by linarith
    then show ?thesis using assms(2) by (simp add: round_even_def)
  next
    case 2
    then have "\<lfloor>y\<rfloor> = n - 1" using assms(1) by linarith
    then show ?thesis using assms(1) by (simp add: round_even_def)
  qed
qed

lemma float_round_small:
  fixes x :: real
  assumes "2 ^ 23 \<le> \<bar>x\<bar> * 2 ^ k" "\<bar>x\<bar> * 2 ^ k < 2 ^ 24" "k \<le> 149"
  shows "float_round x = sgn x * of_int (round_even (\<bar>x\<bar> * 2 ^ k)) / 2 ^ k"
proof -
  define e where "e = 23 - int k"
  have p: "(2::real) powr (of_int e - 23) = 1 / 2 ^ k"
    by (simp add: e_def powr_minus powr_realpow divide_simps)
  have q: "(2::real) powr of_int e = 2 ^ 23 / 2 ^ k" "(2::real) powr (of_int e + 1) = 2 ^ 24 / 2 ^ k"
    by (simp_all add: e_def powr_diff powr_add powr_realpow)
  have "2 powr of_int e \<le> \<bar>x\<bar>" "\<bar>x\<bar> < 2 powr (of_int e + 1)"
    unfolding q using assms(1,2) by (simp_all add: divide_simps)
  moreover have "- 126 \<le> e" using assms(3) by (simp add: e_def)
  ultimately show ?thesis
    by (simp add: float_round_binade p)
qed

lemma float_round_large:
  fixes x :: real
  assumes "2 ^ 23 * 2 ^ k \<le> \<bar>x\<bar>" "\<bar>x\<bar> < 2 ^ 24 * 2 ^ k"
  shows "float_round x = sgn x * of_int (round_even (\<bar>x\<bar> / 2 ^ k)) * 2 ^ k"
proof -
  define e where "e = 23 + int k"
  have p: "(2::real) powr (of_int e - 23) = 2 ^ k"
    by (simp add: e_def powr_realpow)
  have q: "(2::real) powr of_int e = 2 ^ 23 * 2 ^ k" "(2::real) powr (of_int e + 1) = 2 ^ 24 * 2 ^ k"
    by (simp_all add: e_def powr_add powr_realpow)
  have "2 powr of_int e \<le> \<bar>x\<bar>" "\<bar>x\<bar> < 2 powr (of_int e + 1)"
    unfolding q using assms by simp_all
  moreover have "- 126 \<le> e" by (simp add: e_def)
  ultimately show ?thesis
    by (simp add: float_round_binade p)
qed


subsection \<open>Numbers that are rounded to themselves\<close>

lemma float_round_numeral:
  "numeral n \<le> (16777216 :: int) \<Longrightarrow> float_round (numeral n) = numeral n"
  using float_round_of_int [of "numeral n"] by simp

lemma float_of_nat_numeral:
  "numeral n \<le> (16777216 :: int) \<Longrightarrow> float_of_nat (numeral n) = numeral n"
  using float_round_numeral [of n] by (simp add: float_of_nat_def)

lemma float_of_int_numeral:
  "numeral n \<le> (16777216 :: int) \<Longrightarrow> float_of_int (numeral n) = numeral n"
  "numeral n \<le> (16777216 :: int) \<Longrightarrow> float_of_int (- numeral n) = - numeral n"
  using float_round_numeral [of n] by (simp_all add: float_of_int_def float_round_minus)

lemma float_of_nat_0 [simp]: "float_of_nat 0 = 0"
  by (simp add: float_of_nat_def)

lemma float_of_int_0 [simp]: "float_of_int 0 = 0"
  by (simp add: float_of_int_def)

lemma float_of_int_nat [simp]: "float_of_int (int n) = float_of_nat n"
  by (simp add: float_of_int_def float_of_nat_def)

lemma float_of_int_minus: "float_of_int (- i) = - float_of_int i"
  by (simp add: float_of_int_def float_round_minus)

lemmas float_ops = float_add_def float_sub_def float_mul_def float_div_def

section \<open>Properties of the trapezoid solver\<close>

lemma trapezoid_locals_initial_rate:
  "t_initial_rate (trapezoid_locals block entry_factor exit_factor) =
     max (nat \<lceil>float_mul (float_of_nat (nominal_rate block)) entry_factor\<rceil>) 120"
  by (simp add: trapezoid_locals_def Let_def)

lemma trapezoid_locals_final_rate:
  "t_final_rate (trapezoid_locals block entry_factor exit_factor) =
     max (nat \<lceil>float_mul (float_of_nat (nominal_rate block)) exit_factor\<rceil>) 120"
  by (simp add: trapezoid_locals_def Let_def)

lemma trapezoid_locals_plateau_nonneg:
  "0 \<le> t_plateau_steps (trapezoid_locals block entry_factor exit_factor)"
  by (simp add: trapezoid_locals_def Let_def)

lemma trapezoid_locals_no_cruise:
  assumes "first_plateau_steps block
             (t_initial_rate (trapezoid_locals block entry_factor exit_factor))
             (t_final_rate (trapezoid_locals block entry_factor exit_factor)) < 0"
  shows "t_accelerate_steps (trapezoid_locals block entry_factor exit_factor) =
           min (max \<lceil>intersection_distance
                        (float_of_nat (t_initial_rate (trapezoid_locals block entry_factor exit_factor)))
                        (float_of_nat (t_final_rate (trapezoid_locals block entry_factor exit_factor)))
                        (float_of_nat (acceleration_st block))
                        (float_of_nat (step_event_count block))\<rceil> 0)
               (int (step_event_count block))"
    and "t_plateau_steps (trapezoid_locals block entry_factor exit_factor) = 0"
  using assms
  by (simp_all add: trapezoid_locals_initial_rate trapezoid_locals_final_rate)
     (simp_all add: trapezoid_locals_def Let_def)

text \<open>
  The value of \<^verbatim>\<open>intersection_distance\<close> is that of the expression
  \<open>(acc * 2 * d - ir * ir + fr * fr) / (acc * 4)\<close> with every operation rounded; for
  \<open>acc = 0\<close>, where the source returns 0, so does the division of the model.
\<close>

lemma intersection_distance_formula:
  "intersection_distance ir fr acc d =
     float_div (float_add (float_sub (float_mul (float_mul acc 2) d) (float_mul ir ir))
                          (float_mul fr fr))
               (float_mul acc 4)"
  by (simp add: intersection_distance_def float_ops)


text \<open>
  Claim C2.  For entry and exit factors in \<open>[0, 1]\<close> the solver computes
  \<open>initial_rate = \<lceil>nominal_rate * entry_factor\<rceil>\<close> and
  \<open>final_rate = \<lceil>nominal_rate * exit_factor\<rceil>\<close>, each raised to at least 120; when the
  plateau it first computes is negative, \<open>accelerate_steps\<close> becomes the intersection
  distance \<open>\<lceil>(acc * 2 * N - initial_rate^2 + final_rate^2) / (acc * 4)\<rceil>\<close> clamped to
  \<open>[0, N]\<close> (\<open>N\<close> the block's \<open>step_event_count\<close>) and the plateau becomes 0.  These
  values are what a block that is not busy receives.  The products, the sums and the
  quotient are those of the source: of \<^verbatim>\<open>float\<close>s, each rounded to binary32, the
  integers converted to \<^verbatim>\<open>float\<close> first.
\<close>

theorem trapezoid_solver_rates_and_intersection:
  assumes "0 \<le> entry_factor" "entry_factor \<le> 1" "0 \<le> exit_factor" "exit_factor \<le> 1"
  shows "(let t = trapezoid_locals block entry_factor exit_factor;
              ir = t_initial_rate t; fr = t_final_rate t;
              acc = float_of_nat (acceleration_st block);
              N = step_event_count block
          in ir = max (nat \<lceil>float_mul (float_of_nat (nominal_rate block)) entry_factor\<rceil>) 120
           \<and> fr = max (nat \<lceil>float_mul (float_of_nat (nominal_rate block)) exit_factor\<rceil>) 120
           \<and> 120 \<le> ir \<and> 120 \<le> fr
           \<and> (first_plateau_steps block ir fr < 0 \<longrightarrow>
                  t_accelerate_steps t
                    = min (max \<lceil>float_div
                                  (float_add
                                     (float_sub (float_mul (float_mul acc 2) (float_of_nat N))
                                        (float_mul (float_of_nat ir) (float_of_nat ir)))
                                     (float_mul (float_of_nat fr) (float_of_nat fr)))
                                  (float_mul acc 4)\<rceil> 0) (int N)
                \<and> 0 \<le> t_accelerate_steps t \<and> t_accelerate_steps t \<le> int N
                \<and> t_plateau_steps t = 0)
           \<and> (\<not> busy block \<longrightarrow>
                  initial_rate (calculate_trapezoid_for_block block entry_factor exit_factor) = ir
                \<and> final_rate (calculate_trapezoid_for_block block entry_factor exit_factor) = fr
                \<and> accelerate_until (calculate_trapezoid_for_block block entry_factor exit_factor)
                    = t_accelerate_steps t
                \<and> decelerate_after (calculate_trapezoid_for_block block entry_factor exit_factor)
                    = t_accelerate_steps t + t_plateau_steps t))"
proof -
  let ?t = "trapezoid_locals block entry_factor exit_factor"
  let ?acc = "float_of_nat (acceleration_st block)"
  let ?x = "float_div
              (float_add
                 (float_sub (float_mul (float_mul ?acc 2) (float_of_nat (step_event_count block)))
                    (float_mul (float_of_nat (t_initial_rate ?t)) (float_of_nat (t_initial_rate ?t))))
                 (float_mul (float_of_nat (t_final_rate ?t)) (float_of_nat (t_final_rate ?t))))
              (float_mul ?acc 4)"
  have rates: "t_initial_rate ?t
                 = max (nat \<lceil>float_mul (float_of_nat (nominal_rate block)) entry_factor\<rceil>) 120"
              "t_final_rate ?t
                 = max (nat \<lceil>float_mul (float_of_nat (nominal_rate block)) exit_factor\<rceil>) 120"
    by (rule trapezoid_locals_initial_rate, rule trapezoid_locals_final_rate)
  have floor: "120 \<le> t_initial_rate ?t" "120 \<le> t_final_rate ?t"
    by (simp_all add: rates)
  have cross: "t_accelerate_steps ?t = min (max \<lceil>?x\<rceil> 0) (int (step_event_count block))
       \<and> 0 \<le> t_accelerate_steps ?t \<and> t_accelerate_steps ?t \<le> int (step_event_count block)
       \<and> t_plateau_steps ?t = 0"
    if neg: "first_plateau_steps block (t_initial_rate ?t) (t_final_rate ?t) < 0"
  proof -
    note nc = trapezoid_locals_no_cruise [OF neg]
    have "t_accelerate_steps ?t = min (max \<lceil>?x\<rceil> 0) (int (step_event_count block))"
      using nc(1) by (simp only: intersection_distance_formula)
    moreover from this have "0 \<le> t_accelerate_steps ?t"
      "t_accelerate_steps ?t \<le> int (step_event_count block)"
      by simp_all
    ultimately show ?thesis using nc(2) by simp
  qed
  have written: "initial_rate (calculate_trapezoid_for_block block entry_factor exit_factor)
          = t_initial_rate ?t
       \<and> final_rate (calculate_trapezoid_for_block block entry_factor exit_factor)
          = t_final_rate ?t
       \<and> accelerate_until (calculate_trapezoid_for_block block entry_factor exit_factor)
          = t_accelerate_steps ?t
       \<and> decelerate_after (calculate_trapezoid_for_block block entry_factor exit_factor)
          = t_accelerate_steps ?t + t_plateau_steps ?t"
    if "\<not> busy block"
    using that by (simp add: calculate_trapezoid_for_block_def Let_def)
  show ?thesis
    unfolding Let_def using rates floor cross written by blast
qed

subsection \<open>The solver on the concrete blocks\<close>

lemma float_round_sixth: "float_round (1 / 6) = 11184811 / 67108864"
  by (subst float_round_small [where k = 26]) (simp_all add: round_even_def)

lemma float_round_4800_sixth: "float_round (838860825 / 1048576) = 800"
  by (subst float_round_small [where k = 14]) (simp_all add: round_even_def)

lemma float_mul_4800_sixth: "float_mul 4800 (11184811 / 67108864) = 800"
  by (simp add: float_mul_def float_round_4800_sixth)

lemma ceiling_4800_sixth: "\<lceil>4800 * (11184811 / 67108864 :: real)\<rceil> = 801"
  by simp

lemma float_round_23040000: "float_round 23040000 = 23040000"
  by (subst float_round_large [where k = 1]) simp_all

lemma float_round_22400000: "float_round 22400000 = 22400000"
  by (subst float_round_large [where k = 1]) simp_all

text \<open>
  \<open>short_block\<close> with the factor \<^verbatim>\<open>1.0f / 6.0f\<close>, the binary32 number nearest to
  1/6: the product \<open>4800 * 0.16666667163\<close> is 800.0000238 and is rounded to 800.
\<close>

lemma short_block_fields:
  "nominal_rate short_block = 4800" "acceleration_st short_block = 80000"
  "step_event_count short_block = 100" "\<not> busy short_block"
  by (simp_all add: short_block_def cruise_block_def)

lemma short_block_rates:
  "t_initial_rate (trapezoid_locals short_block (11184811 / 67108864) (11184811 / 67108864)) = 800"
  "t_final_rate (trapezoid_locals short_block (11184811 / 67108864) (11184811 / 67108864)) = 800"
  by (simp_all add: trapezoid_locals_initial_rate trapezoid_locals_final_rate short_block_fields
        float_of_nat_numeral float_mul_4800_sixth)

lemma short_block_first_plateau: "first_plateau_steps short_block 800 800 = - 180"
  by (simp add: first_plateau_steps_def short_block_fields
      estimate_acceleration_distance_def Let_def float_ops float_of_nat_numeral
      float_of_int_numeral float_round_numeral float_round_minus
      float_round_23040000 float_round_22400000 float_of_int_minus)

lemma short_block_intersection:
  "intersection_distance 800 800 80000 100 = 50"
  by (simp add: intersection_distance_def float_ops float_round_numeral)

lemma short_block_locals:
  "trapezoid_locals short_block (11184811 / 67108864) (11184811 / 67108864)
     = \<lparr>t_initial_rate = 800, t_final_rate = 800, t_accelerate_steps = 50,
        t_plateau_steps = 0\<rparr>"
proof -
  let ?t = "trapezoid_locals short_block (11184811 / 67108864) (11184811 / 67108864)"
  have neg: "first_plateau_steps short_block (t_initial_rate ?t) (t_final_rate ?t) < 0"
    by (simp add: short_block_rates short_block_first_plateau)
  note nc = trapezoid_locals_no_cruise [OF neg, unfolded short_block_rates short_block_fields]
  have "t_accelerate_steps ?t = 50" "t_plateau_steps ?t = 0"
    using nc by (simp_all add: float_of_nat_numeral short_block_intersection)
  then show ?thesis
    by (cases ?t) (use short_block_rates in simp_all)
qed

theorem trapezoid_solver_rates_and_intersection_witness:
  "float_round (1 / 6) = 11184811 / 67108864
   \<and> (0::real) \<le> 11184811 / 67108864 \<and> (11184811::real) / 67108864 \<le> 1
   \<and> nominal_rate short_block = 4800
   \<and> first_plateau_steps short_block 800 800 < 0
   \<and> \<not> busy short_block
   \<and> float_mul (float_of_nat 4800) (11184811 / 67108864) = 800
   \<and> t_initial_rate (trapezoid_locals short_block (11184811 / 67108864) (11184811 / 67108864))
       = 800
   \<and> t_final_rate (trapezoid_locals short_block (11184811 / 67108864) (11184811 / 67108864))
       = 800
   \<and> t_accelerate_steps (trapezoid_locals short_block (11184811 / 67108864) (11184811 / 67108864))
       = 50
   \<and> t_plateau_steps (trapezoid_locals short_block (11184811 / 67108864) (11184811 / 67108864))
       = 0
   \<and> initial_rate (calculate_trapezoid_for_block short_block (11184811 / 67108864)
                      (11184811 / 67108864)) = 800
   \<and> final_rate (calculate_trapezoid_for_block short_block (11184811 / 67108864)
                    (11184811 / 67108864)) = 800
   \<and> accelerate_until (calculate_trapezoid_for_block short_block (11184811 / 67108864)
                          (11184811 / 67108864)) = 50
   \<and> decelerate_after (calculate_trapezoid_for_block short_block (11184811 / 67108864)
                          (11184811 / 67108864)) = 50"
proof -
  have f: "(0::real) \<le> 11184811 / 67108864" "(11184811::real) / 67108864 \<le> 1"
    by simp_all
  have m: "float_mul (float_of_nat 4800) (11184811 / 67108864) = 800"
    by (simp add: float_of_nat_numeral float_mul_4800_sixth)
  from trapezoid_solver_rates_and_intersection [OF f f, of short_block]
  have "(0::real) \<le> 11184811 / 67108864 \<and> (11184811::real) / 67108864 \<le> 1
   \<and> nominal_rate short_block = 4800
   \<and> first_plateau_steps short_block 800 800 < 0
   \<and> \<not> busy short_block
   \<and> float_mul (float_of_nat 4800) (11184811 / 67108864) = 800
   \<and> t_initial_rate (trapezoid_locals short_block (11184811 / 67108864) (11184811 / 67108864))
       = 800
   \<and> t_final_rate (trapezoid_locals short_block (11184811 / 67108864) (11184811 / 67108864))
       = 800
   \<and> t_accelerate_steps (trapezoid_locals short_block (11184811 / 67108864) (11184811 / 67108864))
       = 50
   \<and> t_plateau_steps (trapezoid_locals short_block (11184811 / 67108864) (11184811 / 67108864))
       = 0
   \<and> initial_rate (calculate_trapezoid_for_block short_block (11184811 / 67108864)
                      (11184811 / 67108864)) = 800
   \<and> final_rate (calculate_trapezoid_for_block short_block (11184811 / 67108864)
                    (11184811 / 67108864)) = 800
   \<and> accelerate_until (calculate_trapezoid_for_block short_block (11184811 / 67108864)
                          (11184811 / 67108864)) = 50
   \<and> decelerate_after (calculate_trapezoid_for_block short_block (11184811 / 67108864)
                          (11184811 / 67108864)) = 50"
    using m by (simp add: Let_def short_block_locals short_block_first_plateau short_block_fields)
  with float_round_sixth show ?thesis by (rule conjI)
qed

text \<open>
  Claim C4 (\<open>accelerate_until \<le> decelerate_after \<le> step_event_count\<close>, also for a
  nominal rate below the floor of 120 steps/s).  The solver at \<open>slow_block\<close>
  (\<open>nominal_rate = 100\<close>, \<open>acceleration_st = 1000\<close>, 10 step events) with both
  factors 1: both rates are raised to 120, above the nominal rate, the two distances
  come out negative (\<open>\<lceil>-2.2\<rceil> = -2\<close> and \<open>\<lfloor>-2.2\<rfloor> = -3\<close>), the plateau is
  \<open>10 + 2 + 3 = 15\<close> and so not negative, and the block is written with
  \<open>accelerate_until = -2\<close> and \<open>decelerate_after = 13\<close>, past its 10 step events.
\<close>

lemma float_round_11_5: "float_round (11 / 5) = 9227469 / 4194304"
  by (subst float_round_small [where k = 22]) (simp_all add: round_even_def)

theorem trapezoid_slow_block_milestones:
  "step_event_count slow_block = 10
   \<and> nominal_rate slow_block = 100
   \<and> initial_rate (calculate_trapezoid_for_block slow_block 1 1) = 120
   \<and> final_rate (calculate_trapezoid_for_block slow_block 1 1) = 120
   \<and> accelerate_until (calculate_trapezoid_for_block slow_block 1 1) = - 2
   \<and> decelerate_after (calculate_trapezoid_for_block slow_block 1 1) = 13"
  by (simp add: calculate_trapezoid_for_block_def trapezoid_locals_def first_plateau_steps_def
      slow_block_def cruise_block_def estimate_acceleration_distance_def Let_def
      float_ops float_of_nat_numeral float_of_int_numeral float_round_numeral float_round_minus
      float_round_11_5 float_of_int_minus)

section \<open>Properties of the timer computation\<close>

lemma drop_bit_2_mask: "drop_bit 2 (w :: 16 word) AND 0x3fff = drop_bit 2 w"
proof -
  have "(0x3fff :: 16 word) = mask 14" by (simp add: mask_eq_exp_minus_1)
  moreover have "take_bit 14 (drop_bit 2 w) = drop_bit 2 w"
    by (rule bit_word_eqI) (auto simp add: bit_simps dest: bit_imp_le_length)
  ultimately show ?thesis by (simp add: take_bit_eq_mask)
qed

lemma drop_bit_1_mask: "drop_bit 1 (w :: 16 word) AND 0x7fff = drop_bit 1 w"
proof -
  have "(0x7fff :: 16 word) = mask 15" by (simp add: mask_eq_exp_minus_1)
  moreover have "take_bit 15 (drop_bit 1 w) = drop_bit 1 w"
    by (rule bit_word_eqI) (auto simp add: bit_simps dest: bit_imp_le_length)
  ultimately show ?thesis by (simp add: take_bit_eq_mask)
qed

lemma calc_timer_floor: "100 \<le> fst (calc_timer cfg step_rate)"
  by (simp add: calc_timer_def Let_def split: prod.split) (simp add: not_less)

lemma calc_timer_step_loops:
  "snd (calc_timer cfg step_rate) = snd (calc_timer_loops cfg step_rate)"
  by (simp add: calc_timer_def Let_def split: prod.split)


lemma calc_timer_loops_unmasked:
  "calc_timer_loops cfg step_rate =
     (let r = (if unat step_rate > MAX_STEP_FREQUENCY cfg
               then of_nat (MAX_STEP_FREQUENCY cfg) else step_rate)
      in if unat r > 2 * DOUBLE_STEP_FREQUENCY cfg then (drop_bit 2 r, 4)
         else if unat r > DOUBLE_STEP_FREQUENCY cfg then (drop_bit 1 r, 2)
         else (r, 1))"
  unfolding calc_timer_loops_def drop_bit_2_mask drop_bit_1_mask by (rule refl)

lemma calc_timer_max:
  "fst (calc_timer cfg step_rate)
     = max 100 (calc_timer_lookup cfg (fst (calc_timer_loops cfg step_rate)))"
  by (auto simp add: calc_timer_def Let_def max_def split: prod.split)

text \<open>
  Claim C6.  With \<open>r\<close> the rate after the clamp to \<open>MAX_STEP_FREQUENCY\<close>:
  \<open>step_loops\<close> is 4 and the rate looked up is \<open>r >> 2\<close> when
  \<open>r > 2 * DOUBLE_STEP_FREQUENCY\<close>; otherwise it is 2 and the rate is \<open>r >> 1\<close> when
  \<open>r > DOUBLE_STEP_FREQUENCY\<close>; otherwise it is 1 and the rate is \<open>r\<close>.  The period
  returned is at least 100 ticks for every input.
\<close>

theorem calc_timer_step_loops_and_floor:
  "(let r = (if unat step_rate > MAX_STEP_FREQUENCY cfg
             then of_nat (MAX_STEP_FREQUENCY cfg) else step_rate)
    in calc_timer_loops cfg step_rate =
         (if unat r > 2 * DOUBLE_STEP_FREQUENCY cfg then (drop_bit 2 r, 4)
          else if unat r > DOUBLE_STEP_FREQUENCY cfg then (drop_bit 1 r, 2)
          else (r, 1))
     \<and> snd (calc_timer cfg step_rate) =
         (if unat r > 2 * DOUBLE_STEP_FREQUENCY cfg then 4
          else if unat r > DOUBLE_STEP_FREQUENCY cfg then 2 else 1)
     \<and> fst (calc_timer cfg step_rate)
         = max 100 (calc_timer_lookup cfg (fst (calc_timer_loops cfg step_rate)))
     \<and> 100 \<le> fst (calc_timer cfg step_rate))"
proof -
  define r where "r = (if unat step_rate > MAX_STEP_FREQUENCY cfg
             then of_nat (MAX_STEP_FREQUENCY cfg) else step_rate)"
  have loops: "calc_timer_loops cfg step_rate =
         (if unat r > 2 * DOUBLE_STEP_FREQUENCY cfg then (drop_bit 2 r, 4)
          else if unat r > DOUBLE_STEP_FREQUENCY cfg then (drop_bit 1 r, 2)
          else (r, 1))"
    unfolding r_def using calc_timer_loops_unmasked [of cfg step_rate]
    by (simp only: Let_def)
  have "snd (calc_timer cfg step_rate) =
         (if unat r > 2 * DOUBLE_STEP_FREQUENCY cfg then 4
          else if unat r > DOUBLE_STEP_FREQUENCY cfg then 2 else 1)"
    by (simp add: calc_timer_step_loops loops)
  with loops calc_timer_max [of cfg step_rate] calc_timer_floor [of cfg step_rate]
  show ?thesis
    unfolding Let_def r_def by blast
qed

section \<open>The line tracer\<close>

text \<open>One axis of the line tracer, iterated.\<close>

lemma bresenham_counter_range:
  assumes "- int n < fst cp" "fst cp \<le> 0" "0 \<le> a" "a \<le> int n"
  shows "- int n < fst (bresenham a n d cp)" "fst (bresenham a n d cp) \<le> 0"
  using assms by (auto simp add: bresenham_def Let_def)



lemma axis_state_step_event:
  assumes "a < 4"
  shows "axis_state (step_event block st) a
           = bresenham (steps block ! a) (step_event_count block) (count_direction st ! a)
               (axis_state st a)"
proof -
  from assms consider "a = 0" | "a = 1" | "a = 2" | "a = 3" by linarith
  then show ?thesis
    by cases
      (simp_all add: axis_state_def axis_counter_def step_event_def Let_def
        X_AXIS_def Y_AXIS_def Z_AXIS_def E_AXIS_def)
qed

lemma step_event_fields [simp]:
  "count_direction (step_event block st) = count_direction st"
  "step_events_completed (step_event block st) = step_events_completed st + 1"
  "current_block (step_event block st) = current_block st"
  "cleaning_buffer_counter (step_event block st) = cleaning_buffer_counter st"
  "step_loops (step_event block st) = step_loops st"
  "step_loops_nominal (step_event block st) = step_loops_nominal st"
  "check_endstops (step_event block st) = check_endstops st"
  "out_bits (step_event block st) = out_bits st"
  "length (count_position (step_event block st)) = 4"
  by (simp_all add: step_event_def Let_def)

lemma funpow_step_event_fields [simp]:
  "count_direction ((step_event block ^^ k) st) = count_direction st"
  "step_events_completed ((step_event block ^^ k) st) = step_events_completed st + k"
  "current_block ((step_event block ^^ k) st) = current_block st"
  "cleaning_buffer_counter ((step_event block ^^ k) st) = cleaning_buffer_counter st"
  "step_loops ((step_event block ^^ k) st) = step_loops st"
  "step_loops_nominal ((step_event block ^^ k) st) = step_loops_nominal st"
  "check_endstops ((step_event block ^^ k) st) = check_endstops st"
  "out_bits ((step_event block ^^ k) st) = out_bits st"
  by (induction k) simp_all

lemma step_event_endstop_fields [simp]:
  "endstops_trigsteps (step_event block st) = endstops_trigsteps st"
  "endstop_hit_bits (step_event block st) = endstop_hit_bits st"
  "old_endstop_bits (step_event block st) = old_endstop_bits st"
  by (simp_all add: step_event_def Let_def)

lemma funpow_step_event_endstop_fields [simp]:
  "endstops_trigsteps ((step_event block ^^ k) st) = endstops_trigsteps st"
  "endstop_hit_bits ((step_event block ^^ k) st) = endstop_hit_bits st"
  "old_endstop_bits ((step_event block ^^ k) st) = old_endstop_bits st"
  by (induction k) simp_all

lemma axis_state_funpow_step_event:
  assumes "a < 4"
  shows "axis_state ((step_event block ^^ k) st) a
           = (bresenham (steps block ! a) (step_event_count block) (count_direction st ! a) ^^ k)
               (axis_state st a)"
  by (induction k) (simp_all add: axis_state_step_event [OF assms])

lemma step_loop_funpow:
  "step_loop block n st =
     (step_event block ^^
        (if n = 0 then 0
         else if step_event_count block \<le> step_events_completed st then 1
         else min n (step_event_count block - step_events_completed st))) st"
proof (induction n arbitrary: st)
  case 0
  show ?case by simp
next
  case (Suc n)
  let ?j = "if step_event_count block \<le> step_events_completed st then 1
            else min (Suc n) (step_event_count block - step_events_completed st)"
  show ?case
  proof (cases "step_event_count block \<le> step_events_completed st + 1")
    case True
    then have "?j = 1" by (auto simp add: min_def)
    moreover have "step_loop block (Suc n) st = step_event block st"
      using True by (simp add: Let_def)
    ultimately show ?thesis by simp
  next
    case False
    then have unfold: "step_loop block (Suc n) st = step_loop block n (step_event block st)"
      by (simp add: Let_def)
    show ?thesis
    proof (cases n)
      case 0
      then show ?thesis using False by (simp add: Let_def)
    next
      case (Suc m)
      have j: "?j = Suc (min n (step_event_count block - (step_events_completed st + 1)))"
        using False by (auto simp add: min_def)
      have n: "n \<noteq> 0" using Suc by simp
      have "step_loop block n (step_event block st)
              = (step_event block ^^ min n (step_event_count block - (step_events_completed st + 1)))
                  (step_event block st)"
        unfolding Suc.IH [of "step_event block st"] using False n by simp
      also have "\<dots> = (step_event block ^^ ?j) st"
        unfolding j by (simp only: funpow_Suc_right o_apply)
      finally show ?thesis unfolding unfold by simp
    qed
  qed
qed

subsection \<open>An endstop pin that is not active\<close>

lemma TEST_SET_BIT_False [simp]: "TEST (SET_BIT n b False) b = False"
  by (simp add: TEST_def SET_BIT_def bit_unset_bit_iff)

lemma UPDATE_ENDSTOP_quiet [simp]:
  "snd (UPDATE_ENDSTOP axis endstop hit False block cs) = snd cs"
  by (simp add: UPDATE_ENDSTOP_def Let_def)

subsection \<open>What the timer computation leaves alone\<close>

lemma next_timer_fields [simp]:
  "count_position (next_timer cfg inp block st) = count_position st"
  "count_direction (next_timer cfg inp block st) = count_direction st"
  "counter_x (next_timer cfg inp block st) = counter_x st"
  "counter_y (next_timer cfg inp block st) = counter_y st"
  "counter_z (next_timer cfg inp block st) = counter_z st"
  "counter_e (next_timer cfg inp block st) = counter_e st"
  "step_events_completed (next_timer cfg inp block st) = step_events_completed st"
  "current_block (next_timer cfg inp block st) = current_block st"
  "cleaning_buffer_counter (next_timer cfg inp block st) = cleaning_buffer_counter st"
  "step_loops_nominal (next_timer cfg inp block st) = step_loops_nominal st"
  "check_endstops (next_timer cfg inp block st) = check_endstops st"
  "out_bits (next_timer cfg inp block st) = out_bits st"
  "endstops_trigsteps (next_timer cfg inp block st) = endstops_trigsteps st"
  "endstop_hit_bits (next_timer cfg inp block st) = endstop_hit_bits st"
  "old_endstop_bits (next_timer cfg inp block st) = old_endstop_bits st"
  by (simp_all add: next_timer_def Let_def split: prod.split)



lemma axis_state_next_timer [simp]:
  "axis_state (next_timer cfg inp block st) a = axis_state st a"
  by (simp add: axis_state_def axis_counter_def)

lemma axis_state_old_endstop_bits [simp]:
  "axis_state (st\<lparr>old_endstop_bits := bits\<rparr>) a = axis_state st a"
  by (simp add: axis_state_def axis_counter_def)

lemma axis_state_current_block [simp]:
  "axis_state (st\<lparr>current_block := cb\<rparr>) a = axis_state st a"
  by (simp add: axis_state_def axis_counter_def)

subsection \<open>One run of the handler on a latched block\<close>

text \<open>
  The stepper's variables after one run of the handler's body for a latched block:
  the endstops, the step loop, the timer.
\<close>

lemma isr_latched:
  assumes "current_block st = Some b" "cleaning_buffer_counter st = 0"
  shows "isr cfg inp (p, st) =
     (let block = block_buffer p b;
          st1 = (if check_endstops st then update_endstops cfg inp block st else st);
          st2 = step_loop block (step_loops st1) st1;
          st3 = next_timer cfg inp block st2
      in if step_events_completed st3 \<ge> step_event_count block
         then (plan_discard_current_block p, st3\<lparr>current_block := None\<rparr>)
         else (p, st3))"
proof -
  have "current_block st \<noteq> None" using assms by simp
  then show ?thesis
    using assms by (simp add: isr_def Let_def)
qed


subsection \<open>Endstops that trigger\<close>

lemma UPDATE_ENDSTOP_fields [simp]:
  "count_position (snd (UPDATE_ENDSTOP axis endstop hit pin block cs)) = count_position (snd cs)"
  "out_bits (snd (UPDATE_ENDSTOP axis endstop hit pin block cs)) = out_bits (snd cs)"
  "old_endstop_bits (snd (UPDATE_ENDSTOP axis endstop hit pin block cs)) = old_endstop_bits (snd cs)"
  "length (endstops_trigsteps (snd (UPDATE_ENDSTOP axis endstop hit pin block cs)))
     = length (endstops_trigsteps (snd cs))"
  "current_block (snd (UPDATE_ENDSTOP axis endstop hit pin block cs)) = current_block (snd cs)"
  "cleaning_buffer_counter (snd (UPDATE_ENDSTOP axis endstop hit pin block cs))
     = cleaning_buffer_counter (snd cs)"
  "step_loops (snd (UPDATE_ENDSTOP axis endstop hit pin block cs)) = step_loops (snd cs)"
  "step_loops_nominal (snd (UPDATE_ENDSTOP axis endstop hit pin block cs))
     = step_loops_nominal (snd cs)"
  "check_endstops (snd (UPDATE_ENDSTOP axis endstop hit pin block cs)) = check_endstops (snd cs)"
  "count_direction (snd (UPDATE_ENDSTOP axis endstop hit pin block cs)) = count_direction (snd cs)"
  "axis_counter (snd (UPDATE_ENDSTOP axis endstop hit pin block cs)) a = axis_counter (snd cs) a"
  by (simp_all add: UPDATE_ENDSTOP_def Let_def axis_counter_def)

lemma TEST_SBI: "TEST (SBI n b) c \<longleftrightarrow> TEST n c \<or> (c = b \<and> b < 8)"
  by (auto simp add: TEST_def SBI_def bit_simps)

lemma UPDATE_ENDSTOP_hit_mono:
  "TEST (endstop_hit_bits (snd cs)) c
     \<Longrightarrow> TEST (endstop_hit_bits (snd (UPDATE_ENDSTOP axis endstop hit pin block cs))) c"
  by (simp add: UPDATE_ENDSTOP_def Let_def TEST_SBI)

lemma UPDATE_ENDSTOP_completed:
  "step_events_completed (snd cs) = step_event_count block
     \<Longrightarrow> step_events_completed (snd (UPDATE_ENDSTOP axis endstop hit pin block cs))
           = step_event_count block"
  by (simp add: UPDATE_ENDSTOP_def Let_def)

lemma UPDATE_ENDSTOP_trigsteps_other:
  "a \<noteq> axis
     \<Longrightarrow> endstops_trigsteps (snd (UPDATE_ENDSTOP axis endstop hit pin block cs)) ! a
           = endstops_trigsteps (snd cs) ! a"
  by (simp add: UPDATE_ENDSTOP_def Let_def)

lemma UPDATE_ENDSTOP_triggered:
  assumes "pin" "TEST (old_endstop_bits (snd cs)) endstop" "steps block ! axis > 0"
    "endstop < 8" "hit < 8" "axis < length (endstops_trigsteps (snd cs))"
  shows "endstops_trigsteps (snd (UPDATE_ENDSTOP axis endstop hit pin block cs)) ! axis
           = count_position (snd cs) ! axis"
    and "TEST (endstop_hit_bits (snd (UPDATE_ENDSTOP axis endstop hit pin block cs))) hit"
    and "step_events_completed (snd (UPDATE_ENDSTOP axis endstop hit pin block cs))
           = step_event_count block"
  using assms
  by (simp_all add: UPDATE_ENDSTOP_def Let_def TEST_SBI)
     (simp_all add: TEST_def SET_BIT_def bit_simps)

text \<open>
  One of the three stages of \<^verbatim>\<open>update_endstops\<close>: the endstop of an axis on the side
  the block moves to.
\<close>

lemma endstop_stage:
  fixes cs :: "8 word \<times> 'a::len stepper" and d hmin hmax pmin pmax axis emin emax hit block
  defines "cs' \<equiv> (if d then (if hmin then UPDATE_ENDSTOP axis emin hit pmin block cs else cs)
                   else (if hmax then UPDATE_ENDSTOP axis emax hit pmax block cs else cs))"
  shows "count_position (snd cs') = count_position (snd cs)"
    and "out_bits (snd cs') = out_bits (snd cs)"
    and "old_endstop_bits (snd cs') = old_endstop_bits (snd cs)"
    and "length (endstops_trigsteps (snd cs')) = length (endstops_trigsteps (snd cs))"
    and "TEST (endstop_hit_bits (snd cs)) c \<Longrightarrow> TEST (endstop_hit_bits (snd cs')) c"
    and "step_events_completed (snd cs) = step_event_count block
           \<Longrightarrow> step_events_completed (snd cs') = step_event_count block"
    and "a \<noteq> axis \<Longrightarrow> endstops_trigsteps (snd cs') ! a = endstops_trigsteps (snd cs) ! a"
  unfolding cs'_def
  by (simp_all add: UPDATE_ENDSTOP_hit_mono UPDATE_ENDSTOP_completed UPDATE_ENDSTOP_trigsteps_other)

lemma endstop_stage_triggered:
  fixes cs :: "8 word \<times> 'a::len stepper" and d hmin hmax pmin pmax axis emin emax hit block
  defines "cs' \<equiv> (if d then (if hmin then UPDATE_ENDSTOP axis emin hit pmin block cs else cs)
                   else (if hmax then UPDATE_ENDSTOP axis emax hit pmax block cs else cs))"
  assumes "if d then hmin \<and> pmin \<and> TEST (old_endstop_bits (snd cs)) emin
           else hmax \<and> pmax \<and> TEST (old_endstop_bits (snd cs)) emax"
    and "steps block ! axis > 0" "emin < 8" "emax < 8" "hit < 8"
    and "axis < length (endstops_trigsteps (snd cs))"
  shows "endstops_trigsteps (snd cs') ! axis = count_position (snd cs) ! axis"
    and "TEST (endstop_hit_bits (snd cs')) hit"
    and "step_events_completed (snd cs') = step_event_count block"
  using assms(2-) unfolding cs'_def
  by (auto simp add: UPDATE_ENDSTOP_triggered split: if_splits)

lemma update_endstops_triggered:
  fixes st :: "'a::len stepper"
  assumes trig: "axis_endstop_triggered cfg inp block st a"
    and len: "length (endstops_trigsteps st) = 3"
  shows "endstops_trigsteps (update_endstops cfg inp block st) ! a = count_position st ! a"
    and "TEST (endstop_hit_bits (update_endstops cfg inp block st)) (axis_hit_bit a)"
    and "step_events_completed (update_endstops cfg inp block st) = step_event_count block"
proof -
  define cs0 :: "8 word \<times> 'a stepper" where "cs0 = (0, st)"
  define cs1 where "cs1 = (if TEST (out_bits st) X_AXIS
                then (if HAS_X_MIN cfg then UPDATE_ENDSTOP X_AXIS X_MIN X_MIN (X_MIN_pin inp) block cs0
                      else cs0)
                else (if HAS_X_MAX cfg then UPDATE_ENDSTOP X_AXIS X_MAX X_MIN (X_MAX_pin inp) block cs0
                      else cs0))"
  define cs2 where "cs2 = (if TEST (out_bits st) Y_AXIS
                then (if HAS_Y_MIN cfg then UPDATE_ENDSTOP Y_AXIS Y_MIN Y_MIN (Y_MIN_pin inp) block cs1
                      else cs1)
                else (if HAS_Y_MAX cfg then UPDATE_ENDSTOP Y_AXIS Y_MAX Y_MIN (Y_MAX_pin inp) block cs1
                      else cs1))"
  define cs3 where "cs3 = (if TEST (out_bits st) Z_AXIS
                then (if HAS_Z_MIN cfg then UPDATE_ENDSTOP Z_AXIS Z_MIN Z_MIN (Z_MIN_pin inp) block cs2
                      else cs2)
                else (if HAS_Z_MAX cfg then UPDATE_ENDSTOP Z_AXIS Z_MAX Z_MIN (Z_MAX_pin inp) block cs2
                      else cs2))"
  have res: "update_endstops cfg inp block st = (snd cs3)\<lparr>old_endstop_bits := fst cs3\<rparr>"
    unfolding update_endstops_def Let_def cs3_def cs2_def cs1_def cs0_def by (rule refl)
  note s1 = endstop_stage [where cs=cs0 and axis=X_AXIS and emin=X_MIN and emax=X_MAX
      and hit=X_MIN and block=block and d="TEST (out_bits st) X_AXIS" and hmin="HAS_X_MIN cfg"
      and hmax="HAS_X_MAX cfg" and pmin="X_MIN_pin inp" and pmax="X_MAX_pin inp", folded cs1_def]
  note s2 = endstop_stage [where cs=cs1 and axis=Y_AXIS and emin=Y_MIN and emax=Y_MAX
      and hit=Y_MIN and block=block and d="TEST (out_bits st) Y_AXIS" and hmin="HAS_Y_MIN cfg"
      and hmax="HAS_Y_MAX cfg" and pmin="Y_MIN_pin inp" and pmax="Y_MAX_pin inp", folded cs2_def]
  note s3 = endstop_stage [where cs=cs2 and axis=Z_AXIS and emin=Z_MIN and emax=Z_MAX
      and hit=Z_MIN and block=block and d="TEST (out_bits st) Z_AXIS" and hmin="HAS_Z_MIN cfg"
      and hmax="HAS_Z_MAX cfg" and pmin="Z_MIN_pin inp" and pmax="Z_MAX_pin inp", folded cs3_def]
  have st0: "snd cs0 = st" by (simp add: cs0_def)
  have pos: "count_position (snd cs1) = count_position st" "count_position (snd cs2) = count_position st"
    and old: "old_endstop_bits (snd cs1) = old_endstop_bits st"
             "old_endstop_bits (snd cs2) = old_endstop_bits st"
    and ln: "length (endstops_trigsteps (snd cs1)) = 3" "length (endstops_trigsteps (snd cs2)) = 3"
    by (simp_all add: s1 s2 st0 len)
  have bits: "X_MIN < 8" "X_MAX < 8" "Y_MIN < 8" "Y_MAX < 8" "Z_MIN < 8" "Z_MAX < 8"
    by (simp_all add: X_MIN_def X_MAX_def Y_MIN_def Y_MAX_def Z_MIN_def Z_MAX_def)
  have ax: "X_AXIS \<noteq> Y_AXIS" "X_AXIS \<noteq> Z_AXIS" "Y_AXIS \<noteq> Z_AXIS"
    by (simp_all add: X_AXIS_def Y_AXIS_def Z_AXIS_def)
  from trig consider (X) "a = X_AXIS" | (Y) "a = Y_AXIS" "a \<noteq> X_AXIS"
    | (Z) "a = Z_AXIS" "a \<noteq> X_AXIS" "a \<noteq> Y_AXIS"
    by (auto simp add: axis_endstop_triggered_def split: if_splits)
  then have "endstops_trigsteps (snd cs3) ! a = count_position st ! a
      \<and> TEST (endstop_hit_bits (snd cs3)) (axis_hit_bit a)
      \<and> step_events_completed (snd cs3) = step_event_count block"
  proof cases
    case X
    have c: "if TEST (out_bits st) X_AXIS
             then HAS_X_MIN cfg \<and> X_MIN_pin inp \<and> TEST (old_endstop_bits (snd cs0)) X_MIN
             else HAS_X_MAX cfg \<and> X_MAX_pin inp \<and> TEST (old_endstop_bits (snd cs0)) X_MAX"
      and sp: "steps block ! X_AXIS > 0"
      using trig X by (auto simp add: axis_endstop_triggered_def st0 split: if_splits)
    have l0: "X_AXIS < length (endstops_trigsteps (snd cs0))" by (simp add: st0 len X_AXIS_def)
    note t = endstop_stage_triggered [OF c sp bits(1,2,1) l0, folded cs1_def]
    show ?thesis
      using t s2(5,6,7) s3(5,6,7) ax
      by (simp add: X axis_hit_bit_def st0)
  next
    case Y
    have c: "if TEST (out_bits st) Y_AXIS
             then HAS_Y_MIN cfg \<and> Y_MIN_pin inp \<and> TEST (old_endstop_bits (snd cs1)) Y_MIN
             else HAS_Y_MAX cfg \<and> Y_MAX_pin inp \<and> TEST (old_endstop_bits (snd cs1)) Y_MAX"
      and sp: "steps block ! Y_AXIS > 0"
      using trig Y ax by (auto simp add: axis_endstop_triggered_def old split: if_splits)
    have l1: "Y_AXIS < length (endstops_trigsteps (snd cs1))" by (simp add: ln Y_AXIS_def)
    note t = endstop_stage_triggered [OF c sp bits(3,4,3) l1, folded cs2_def]
    show ?thesis
      using t s3(5,6,7) ax
      by (simp add: Y axis_hit_bit_def pos)
  next
    case Z
    have c: "if TEST (out_bits st) Z_AXIS
             then HAS_Z_MIN cfg \<and> Z_MIN_pin inp \<and> TEST (old_endstop_bits (snd cs2)) Z_MIN
             else HAS_Z_MAX cfg \<and> Z_MAX_pin inp \<and> TEST (old_endstop_bits (snd cs2)) Z_MAX"
      and sp: "steps block ! Z_AXIS > 0"
      using trig Z ax by (auto simp add: axis_endstop_triggered_def old split: if_splits)
    have l2: "Z_AXIS < length (endstops_trigsteps (snd cs2))" by (simp add: ln Z_AXIS_def)
    note t = endstop_stage_triggered [OF c sp bits(5,6,5) l2, folded cs3_def]
    show ?thesis
      using t ax by (simp add: Z axis_hit_bit_def pos)
  qed
  then show "endstops_trigsteps (update_endstops cfg inp block st) ! a = count_position st ! a"
    and "TEST (endstop_hit_bits (update_endstops cfg inp block st)) (axis_hit_bit a)"
    and "step_events_completed (update_endstops cfg inp block st) = step_event_count block"
    by (simp_all add: res)
qed

lemma update_endstops_fields [simp]:
  "count_position (update_endstops cfg inp block st) = count_position st"
  "out_bits (update_endstops cfg inp block st) = out_bits st"
  "current_block (update_endstops cfg inp block st) = current_block st"
  "cleaning_buffer_counter (update_endstops cfg inp block st) = cleaning_buffer_counter st"
  "step_loops (update_endstops cfg inp block st) = step_loops st"
  "step_loops_nominal (update_endstops cfg inp block st) = step_loops_nominal st"
  "check_endstops (update_endstops cfg inp block st) = check_endstops st"
  "count_direction (update_endstops cfg inp block st) = count_direction st"
  by (simp_all add: update_endstops_def Let_def)

lemma UPDATE_ENDSTOP_counters [simp]:
  "counter_x (snd (UPDATE_ENDSTOP axis endstop hit pin block cs)) = counter_x (snd cs)"
  "counter_y (snd (UPDATE_ENDSTOP axis endstop hit pin block cs)) = counter_y (snd cs)"
  "counter_z (snd (UPDATE_ENDSTOP axis endstop hit pin block cs)) = counter_z (snd cs)"
  "counter_e (snd (UPDATE_ENDSTOP axis endstop hit pin block cs)) = counter_e (snd cs)"
  by (simp_all add: UPDATE_ENDSTOP_def Let_def)

lemma axis_state_update_endstops [simp]:
  "axis_state (update_endstops cfg inp block st) a = axis_state st a"
  by (simp add: axis_state_def axis_counter_def update_endstops_def Let_def)

lemma isr_tick_triggered:
  fixes st :: "'a::len stepper"
  assumes cb: "current_block st = Some b" and cl: "cleaning_buffer_counter st = 0"
    and chk: "check_endstops st"
    and trig: "axis_endstop_triggered cfg inp (block_buffer p b) st a"
    and len: "length (endstops_trigsteps st) = 3"
  shows "\<exists>st'. isr cfg inp (p, st) = (plan_discard_current_block p, st')
           \<and> current_block st' = None
           \<and> endstops_trigsteps st' ! a = count_position st ! a
           \<and> TEST (endstop_hit_bits st') (axis_hit_bit a)
           \<and> step_event_count (block_buffer p b) \<le> step_events_completed st'
           \<and> (\<forall>i<4. axis_state st' i =
                 (bresenham (steps (block_buffer p b) ! i) (step_event_count (block_buffer p b))
                    (count_direction st ! i) ^^ (if step_loops st = 0 then 0 else 1))
                 (axis_state st i))"
proof -
  let ?block = "block_buffer p b"
  define st1 where "st1 = update_endstops cfg inp ?block st"
  note t = update_endstops_triggered [OF trig len, folded st1_def]
  define st2 where "st2 = step_loop ?block (step_loops st1) st1"
  define k :: nat where "k = (if step_loops st = 0 then 0 else 1)"
  have sl: "step_loops st1 = step_loops st"
    by (simp add: st1_def)
  have st2: "st2 = (step_event ?block ^^ k) st1"
    unfolding st2_def step_loop_funpow k_def sl by (simp add: t)
  define st3 where "st3 = next_timer cfg inp ?block st2"
  have c3: "step_event_count ?block \<le> step_events_completed st3"
    by (simp add: st3_def st2 t)
  have ax: "axis_state st3 i =
                 (bresenham (steps ?block ! i) (step_event_count ?block)
                    (count_direction st ! i) ^^ k) (axis_state st i)" if "i < 4" for i
    by (simp add: st3_def st2 axis_state_funpow_step_event [OF that] st1_def)
  have "isr cfg inp (p, st) = (plan_discard_current_block p, st3\<lparr>current_block := None\<rparr>)"
    unfolding isr_latched [OF cb cl] Let_def using chk c3
    by (simp add: st3_def st2_def st1_def)
  then show ?thesis
    using t c3 ax unfolding k_def
    by (intro exI [of _ "st3\<lparr>current_block := None\<rparr>"]) (simp add: st3_def st2)
qed

subsection \<open>Runs in which no endstop triggers\<close>





subsection \<open>Latching the next block\<close>

lemma trapezoid_generator_reset_fields [simp]:
  "current_block (trapezoid_generator_reset cfg block st) = current_block st"
  "cleaning_buffer_counter (trapezoid_generator_reset cfg block st) = cleaning_buffer_counter st"
  "check_endstops (trapezoid_generator_reset cfg block st) = check_endstops st"
  "count_position (trapezoid_generator_reset cfg block st) = count_position st"
  "out_bits (trapezoid_generator_reset cfg block st) = direction_bits block"
  "endstops_trigsteps (trapezoid_generator_reset cfg block st) = endstops_trigsteps st"
  "endstop_hit_bits (trapezoid_generator_reset cfg block st) = endstop_hit_bits st"
  "old_endstop_bits (trapezoid_generator_reset cfg block st) = old_endstop_bits st"
  "step_loops (trapezoid_generator_reset cfg block st)
     = snd (calc_timer cfg (of_nat (initial_rate block)))"
  "step_loops_nominal (trapezoid_generator_reset cfg block st)
     = snd (calc_timer cfg (of_nat (nominal_rate block)))"
  by (simp_all add: trapezoid_generator_reset_def set_stepper_direction_def Let_def
        split: prod.split)




subsection \<open>The runs of the handler that trace one block\<close>







subsection \<open>A block traced from latch to retirement\<close>




lemma plan_discard_current_block_tail:
  "blocks_queued p \<Longrightarrow>
   block_buffer_tail (plan_discard_current_block p) = next_block_index (block_buffer_tail p)"
  by (simp add: plan_discard_current_block_def)



subsection \<open>The concrete machine\<close>

lemma example_stepper_fields:
  "current_block example_stepper = None" "cleaning_buffer_counter example_stepper = 0"
  "check_endstops example_stepper" "out_bits example_stepper = 0"
  "old_endstop_bits example_stepper = 0" "count_position example_stepper = [0, 0, 0, 0]"
  "endstops_trigsteps example_stepper = [0, 0, 0]" "directions_latched example_stepper"
  by (simp_all add: example_stepper_def st_init_def set_stepper_direction_def
        directions_latched_def)


lemma homing_ring_fields:
  "blocks_queued homing_ring" "block_buffer_tail homing_ring = 0"
  "block_buffer homing_ring 0 = homing_block"
  "steps homing_block = [10, 0, 0, 0]" "step_event_count homing_block = 10"
  "direction_bits homing_block = 1" "initial_rate homing_block = 800"
  by (simp_all add: homing_ring_def jog_ring_def blocks_queued_def homing_block_def
        cruise_block_def)











subsection \<open>An endstop that triggers\<close>

text \<open>
  C7.  A block is current, the handler is not flushing the buffer, endstop checking is
  on, and the endstop of axis \<open>a\<close> triggers in this run: the block moves the axis
  towards that endstop, the pin is active in this sample and was in the last one, and
  the block has steps on the axis.  Then \<^verbatim>\<open>update_endstops\<close> records the axis'
  position in \<open>endstops_trigsteps\<close>, sets the axis' bit of \<open>endstop_hit_bits\<close> and
  sets \<open>step_events_completed\<close> to \<open>step_event_count\<close>; and the same run of the
  handler retires the block: it ends with no current block and the ring's tail
  advanced, the recorded position and the hit bit still in place.
\<close>

theorem endstop_trigger_records_and_retires:
  fixes p :: "'a::len planner" and st :: "'a stepper"
  assumes cb: "current_block st = Some b" and cl: "cleaning_buffer_counter st = 0"
    and chk: "check_endstops st"
    and trig: "axis_endstop_triggered cfg inp (block_buffer p b) st a"
    and len: "length (endstops_trigsteps st) = 3"
  shows "endstops_trigsteps (update_endstops cfg inp (block_buffer p b) st) ! a
           = count_position st ! a
         \<and> TEST (endstop_hit_bits (update_endstops cfg inp (block_buffer p b) st)) (axis_hit_bit a)
         \<and> step_events_completed (update_endstops cfg inp (block_buffer p b) st)
             = step_event_count (block_buffer p b)
         \<and> fst (isr cfg inp (p, st)) = plan_discard_current_block p
         \<and> current_block (snd (isr cfg inp (p, st))) = None
         \<and> endstops_trigsteps (snd (isr cfg inp (p, st))) ! a = count_position st ! a
         \<and> TEST (endstop_hit_bits (snd (isr cfg inp (p, st)))) (axis_hit_bit a)
         \<and> step_event_count (block_buffer p b) \<le> step_events_completed (snd (isr cfg inp (p, st)))"
proof -
  from isr_tick_triggered [OF cb cl chk trig len]
  obtain st' where "isr cfg inp (p, st) = (plan_discard_current_block p, st')"
    and "current_block st' = None"
    and "endstops_trigsteps st' ! a = count_position st ! a"
    and "TEST (endstop_hit_bits st') (axis_hit_bit a)"
    and "step_event_count (block_buffer p b) \<le> step_events_completed st'"
    by blast
  then show ?thesis
    using update_endstops_triggered [OF trig len] by simp
qed

lemma homing_stepper_fields:
  "current_block homing_stepper = Some 0" "cleaning_buffer_counter homing_stepper = 0"
  "check_endstops homing_stepper" "out_bits homing_stepper = 1"
  "old_endstop_bits homing_stepper = 1" "count_position homing_stepper = [- 1, 0, 0, 0]"
  "endstops_trigsteps homing_stepper = [0, 0, 0]"
  by (simp_all add: homing_stepper_def example_stepper_fields)

theorem endstop_trigger_records_and_retires_witness:
  "current_block homing_stepper = Some 0 \<and> cleaning_buffer_counter homing_stepper = 0
   \<and> check_endstops homing_stepper
   \<and> axis_endstop_triggered example_config x_min_input (block_buffer homing_ring 0)
        homing_stepper X_AXIS
   \<and> length (endstops_trigsteps homing_stepper) = 3
   \<and> endstops_trigsteps (update_endstops example_config x_min_input homing_block homing_stepper)
        ! X_AXIS = - 1
   \<and> TEST (endstop_hit_bits (update_endstops example_config x_min_input homing_block
        homing_stepper)) X_MIN
   \<and> step_events_completed (update_endstops example_config x_min_input homing_block
        homing_stepper) = 10
   \<and> block_buffer_tail (fst (isr example_config x_min_input (homing_ring, homing_stepper))) = 1
   \<and> current_block (snd (isr example_config x_min_input (homing_ring, homing_stepper))) = None
   \<and> endstops_trigsteps (snd (isr example_config x_min_input (homing_ring, homing_stepper)))
        ! X_AXIS = - 1"
proof -
  have trig: "axis_endstop_triggered example_config x_min_input (block_buffer homing_ring 0)
        homing_stepper X_AXIS"
    by (simp add: axis_endstop_triggered_def X_AXIS_def TEST_def homing_stepper_fields
          homing_ring_fields X_MIN_def example_config_def x_min_input_def quiet_input_def)
  have len: "length (endstops_trigsteps homing_stepper) = 3"
    by (simp add: homing_stepper_fields)
  have tail: "block_buffer_tail (plan_discard_current_block homing_ring) = 1"
    by (simp add: plan_discard_current_block_tail homing_ring_fields next_block_index_def)
  from endstop_trigger_records_and_retires [OF homing_stepper_fields(1,2,3) trig len]
  show ?thesis
    using trig tail
    by (simp add: homing_stepper_fields homing_ring_fields axis_hit_bit_def X_AXIS_def)
qed


section \<open>The planner\<close>

subsection \<open>What the lookahead leaves alone\<close>

lemma replanned_refl [simp]: "replanned b b"
  by (simp add: replanned_def)


lemma replanned_entry_speed [simp]:
  "replanned b (b\<lparr>entry_speed := v, recalculate_flag := r\<rparr>)"
  by (simp add: replanned_def)

lemma replanned_calculate_trapezoid [simp]:
  "replanned b (calculate_trapezoid_for_block b entry_factor exit_factor)"
  "replanned b ((calculate_trapezoid_for_block b entry_factor exit_factor)\<lparr>recalculate_flag := r\<rparr>)"
  by (simp_all add: replanned_def calculate_trapezoid_for_block_def Let_def)








lemma planner_reverse_pass_fields [simp]:
  "block_buffer_head (planner_reverse_pass s) = block_buffer_head s"
  "block_buffer_tail (planner_reverse_pass s) = block_buffer_tail s"
  "position (planner_reverse_pass s) = position s"
  "previous_speed (planner_reverse_pass s) = previous_speed s"
  "previous_nominal_speed (planner_reverse_pass s) = previous_nominal_speed s"
  by (simp_all add: planner_reverse_pass_def Let_def)

lemma planner_forward_pass_fields [simp]:
  "block_buffer_head (planner_forward_pass s) = block_buffer_head s"
  "block_buffer_tail (planner_forward_pass s) = block_buffer_tail s"
  "position (planner_forward_pass s) = position s"
  "previous_speed (planner_forward_pass s) = previous_speed s"
  "previous_nominal_speed (planner_forward_pass s) = previous_nominal_speed s"
  by (simp_all add: planner_forward_pass_def Let_def split: prod.split)

lemma planner_recalculate_trapezoids_fields [simp]:
  "block_buffer_head (planner_recalculate_trapezoids cfg s) = block_buffer_head s"
  "block_buffer_tail (planner_recalculate_trapezoids cfg s) = block_buffer_tail s"
  "position (planner_recalculate_trapezoids cfg s) = position s"
  "previous_speed (planner_recalculate_trapezoids cfg s) = previous_speed s"
  "previous_nominal_speed (planner_recalculate_trapezoids cfg s) = previous_nominal_speed s"
  by (simp_all add: planner_recalculate_trapezoids_def Let_def split: prod.split)

lemma planner_recalculate_fields [simp]:
  "block_buffer_head (planner_recalculate cfg s) = block_buffer_head s"
  "block_buffer_tail (planner_recalculate cfg s) = block_buffer_tail s"
  "position (planner_recalculate cfg s) = position s"
  "previous_speed (planner_recalculate cfg s) = previous_speed s"
  "previous_nominal_speed (planner_recalculate cfg s) = previous_nominal_speed s"
  by (simp_all add: planner_recalculate_def)







subsection \<open>Dropping and appending\<close>

lemma next_block_index_neq [simp]:
  "next_block_index h \<noteq> h" "h \<noteq> next_block_index h"
  by (simp_all add: next_block_index_def)

lemma new_block_old_slot:
  "new_block cfg n mq ps pns (old\<lparr>busy := b, steps := st, step_event_count := c\<rparr>) d f ext drv
     = new_block cfg n mq ps pns old d f ext drv"
  by (simp add: new_block_def Let_def case_prod_beta)


lemma calculate_trapezoid_fields [simp]:
  "steps (calculate_trapezoid_for_block b ef xf) = steps b"
  "step_event_count (calculate_trapezoid_for_block b ef xf) = step_event_count b"
  "nominal_rate (calculate_trapezoid_for_block b ef xf) = nominal_rate b"
  "nominal_speed (calculate_trapezoid_for_block b ef xf) = nominal_speed b"
  "busy (calculate_trapezoid_for_block b ef xf) = busy b"
  "entry_speed (calculate_trapezoid_for_block b ef xf) = entry_speed b"
  "max_entry_speed (calculate_trapezoid_for_block b ef xf) = max_entry_speed b"
  "direction_bits (calculate_trapezoid_for_block b ef xf) = direction_bits b"
  by (simp_all add: calculate_trapezoid_for_block_def Let_def)

lemma plan_buffer_line_full:
  "ring_full s \<Longrightarrow> plan_buffer_line cfg x y z e feed_rate extruder driver s = None"
  by (simp add: plan_buffer_line_def ring_full_def Let_def)

lemma plan_buffer_line_dropped:
  assumes "\<not> ring_full s"
    and "move_step_event_count cfg x y z e extruder s \<le> DROP_SEGMENTS cfg"
  shows "plan_buffer_line cfg x y z e feed_rate extruder driver s =
           Some (s\<lparr>block_buffer := (block_buffer s)
                   (block_buffer_head s := (block_buffer s (block_buffer_head s))
                      \<lparr>busy := False,
                       steps := block_steps cfg extruder (move_deltas cfg x y z e extruder s),
                       step_event_count := move_step_event_count cfg x y z e extruder s\<rparr>)\<rparr>)"
  using assms
  by (simp add: plan_buffer_line_def ring_full_def move_step_event_count_def move_deltas_def
        Let_def)





subsection \<open>Moves at the threshold\<close>

lemma idle_ring_fields:
  "\<not> ring_full idle_ring" "block_buffer_head idle_ring = 0" "block_buffer_tail idle_ring = 0"
  "position idle_ring = [0, 0, 0, 0]" "movesplanned idle_ring = 0"
  "previous_speed idle_ring = [0, 0, 0, 0]" "previous_nominal_speed idle_ring = 0"
  "block_buffer idle_ring i = cruise_block"
  by (simp_all add: idle_ring_def ring_full_def next_block_index_def movesplanned_def)

lemma example_config_steps_per_unit:
  "axis_steps_per_unit example_config = [80, 80, 4000, 500]"
  "volumetric_multiplier example_config = [1]" "extruder_multiplier example_config = [100]"
  "DROP_SEGMENTS example_config = 5"
  by (simp_all add: example_config_def)

lemma long_of_int_small: "- (2 ^ 31) \<le> i \<Longrightarrow> i < 2 ^ 31 \<Longrightarrow> long_of_int i = i"
  by (simp add: long_of_int_def)

lemma labs_small: "\<bar>i\<bar> < 2 ^ 31 \<Longrightarrow> labs i = \<bar>i\<bar>"
  by (simp add: labs_def long_of_int_small)

lemma ulong_of_int_small: "0 \<le> i \<Longrightarrow> i < 2 ^ 32 \<Longrightarrow> ulong_of_int i = nat i"
  by (simp add: ulong_of_int_def)


lemma float_mul_001375: "float_mul (1476395 / 1073741824) 4000 = 11 / 2"
  unfolding float_mul_def
  by (subst float_round_small [where k = 21]) (simp_all add: round_even_def)

lemma float_mul_zero [simp]: "float_mul 0 y = 0" "float_mul x 0 = 0"
  by (simp_all add: float_mul_def)

lemma float_mul_sixteenth: "float_mul (1 / 16) 80 = 5"
  by (simp add: float_mul_def float_round_numeral)

lemma float_mul_1_80: "float_mul 1 80 = 80"
  by (simp add: float_mul_def float_round_numeral)

lemma float_mul_60000_500: "float_mul 60000 500 = 30000000"
  unfolding float_mul_def
  by (subst float_round_large [where k = 1]) simp_all

lemma float_of_int_30000000: "float_of_int 30000000 = 30000000"
  unfolding float_of_int_def
  by (subst float_round_large [where k = 1]) simp_all

lemma move_deltas_idle:
  "move_deltas example_config (1 / 16) 0 0 0 0 idle_ring = [5, 0, 0, 0]"
  "move_deltas example_config 1 0 0 0 0 idle_ring = [80, 0, 0, 0]"
  "move_deltas example_config 0 0 (1476395 / 1073741824) 0 0 idle_ring = [0, 0, 6, 0]"
  "move_deltas example_config 0 0 0 60000 0 idle_ring = [0, 0, 0, 30000000]"
  by (simp_all add: move_deltas_def step_deltas_def target_steps_def lround_def idle_ring_fields
        example_config_steps_per_unit X_AXIS_def Y_AXIS_def Z_AXIS_def E_AXIS_def
        float_mul_sixteenth float_mul_1_80 float_mul_001375 float_mul_60000_500 long_of_int_def)

lemma block_steps_no_e:
  "0 \<le> a \<Longrightarrow> a < 2 ^ 31 \<Longrightarrow> 0 \<le> b \<Longrightarrow> b < 2 ^ 31 \<Longrightarrow> 0 \<le> c \<Longrightarrow> c < 2 ^ 31 \<Longrightarrow>
   block_steps example_config 0 [a, b, c, 0] = [a, b, c, 0]"
  by (simp add: block_steps_def example_config_steps_per_unit trunc_def c_div_def labs_small
        X_AXIS_def Y_AXIS_def Z_AXIS_def E_AXIS_def long_of_int_def)

text \<open>
  An extrusion of 60 m: the 30000000 steps, multiplied by the percentage 100, leave
  the range of \<^verbatim>\<open>long\<close>; the product wraps to -1294967296 and \<^verbatim>\<open>steps[E_AXIS]\<close> is
  -12949672.
\<close>

lemma block_steps_long_extrusion:
  "block_steps example_config 0 [0, 0, 0, 30000000] = [0, 0, 0, - 12949672]"
  by (simp add: block_steps_def example_config_steps_per_unit trunc_def c_div_def labs_small
        X_AXIS_def Y_AXIS_def Z_AXIS_def E_AXIS_def long_of_int_def float_of_int_30000000
        float_mul_def float_of_int_30000000 [unfolded float_of_int_def, simplified])

lemma move_step_event_count_idle:
  "move_step_event_count example_config (1 / 16) 0 0 0 0 idle_ring = 5"
  "move_step_event_count example_config 1 0 0 0 0 idle_ring = 80"
  "move_step_event_count example_config 0 0 (1476395 / 1073741824) 0 0 idle_ring = 6"
  "move_step_event_count example_config 0 0 0 60000 0 idle_ring = 0"
  by (simp_all add: move_step_event_count_def move_deltas_idle block_steps_no_e
        block_steps_long_extrusion
        block_step_event_count_def ulong_of_int_def X_AXIS_def Y_AXIS_def Z_AXIS_def E_AXIS_def)




subsection \<open>The frame of a dropped move\<close>

lemma plan_buffer_line_scratch_slot:
  fixes s :: "'a::len planner"
  shows "plan_buffer_line cfg x y z e feed_rate extruder driver
           (s\<lparr>block_buffer := (block_buffer s)
                   (block_buffer_head s := (block_buffer s (block_buffer_head s))
                      \<lparr>busy := b, steps := st, step_event_count := c\<rparr>)\<rparr>)
           = plan_buffer_line cfg x y z e feed_rate extruder driver s"
  by (simp add: plan_buffer_line_def Let_def new_block_old_slot movesplanned_def)

text \<open>
  C10.  A call of \<^verbatim>\<open>plan_buffer_line\<close> on a ring that is not full, whose
  \<open>step_event_count\<close> is at most \<open>DROP_SEGMENTS\<close>, returns with \<open>head\<close>, \<open>tail\<close>,
  \<open>position\<close>, \<open>previous_speed\<close> and \<open>previous_nominal_speed\<close> as they were and with
  every slot of the buffer other than the one at \<open>head\<close>, which is outside the ring, as
  it was; the block the consumer would take is the same.  The deltas of any later call
  are measured from the unchanged position, so they contain the dropped displacement,
  and any later call returns what it would have returned had the dropped call not been
  made.
\<close>

theorem plan_buffer_line_dropped_move_frame:
  fixes s :: "'a::len planner"
  assumes "\<not> ring_full s"
    and "move_step_event_count cfg x y z e extruder s \<le> DROP_SEGMENTS cfg"
  shows "\<exists>s'. plan_buffer_line cfg x y z e feed_rate extruder driver s = Some s'
           \<and> block_buffer_head s' = block_buffer_head s
           \<and> block_buffer_tail s' = block_buffer_tail s
           \<and> position s' = position s
           \<and> previous_speed s' = previous_speed s
           \<and> previous_nominal_speed s' = previous_nominal_speed s
           \<and> (\<forall>i. i \<noteq> block_buffer_head s \<longrightarrow> block_buffer s' i = block_buffer s i)
           \<and> fst (plan_get_current_block s') = fst (plan_get_current_block s)
           \<and> movesplanned s' = movesplanned s
           \<and> (\<forall>x' y' z' e' feed_rate' extruder' driver'.
                 move_deltas cfg x' y' z' e' extruder' s' = move_deltas cfg x' y' z' e' extruder' s
                 \<and> plan_buffer_line cfg x' y' z' e' feed_rate' extruder' driver' s'
                     = plan_buffer_line cfg x' y' z' e' feed_rate' extruder' driver' s)"
  unfolding plan_buffer_line_dropped [OF assms]
  by (simp add: plan_buffer_line_scratch_slot plan_get_current_block_def blocks_queued_def
        movesplanned_def move_deltas_def)

text \<open>
  Two dropped moves: 1/16 mm along X, which is 5 steps, and an extrusion of 60 m,
  whose step count wraps to a negative number and leaves \<open>step_event_count = 0\<close>.
  After either the position is the origin still, and a move to X = 1 mm has its 80
  steps.
\<close>

theorem plan_buffer_line_dropped_move_frame_witness:
  "\<not> ring_full idle_ring
   \<and> move_step_event_count example_config (1 / 16) 0 0 0 0 idle_ring \<le> DROP_SEGMENTS example_config
   \<and> map_option position (plan_buffer_line example_config (1 / 16) 0 0 0 50 0 0 idle_ring)
       = Some [0, 0, 0, 0]
   \<and> map_option (\<lambda>s'. move_deltas example_config 1 0 0 0 0 s')
        (plan_buffer_line example_config (1 / 16) 0 0 0 50 0 0 idle_ring) = Some [80, 0, 0, 0]
   \<and> block_steps example_config 0 (move_deltas example_config 0 0 0 60000 0 idle_ring)
       = [0, 0, 0, - 12949672]
   \<and> move_step_event_count example_config 0 0 0 60000 0 idle_ring \<le> DROP_SEGMENTS example_config
   \<and> map_option position (plan_buffer_line example_config 0 0 0 60000 50 0 0 idle_ring)
       = Some [0, 0, 0, 0]
   \<and> map_option block_buffer_head (plan_buffer_line example_config 0 0 0 60000 50 0 0 idle_ring)
       = Some 0"
proof -
  have le: "move_step_event_count example_config (1 / 16) 0 0 0 0 idle_ring
          \<le> DROP_SEGMENTS example_config"
    by (simp add: move_step_event_count_idle example_config_steps_per_unit)
  have le': "move_step_event_count example_config 0 0 0 60000 0 idle_ring
          \<le> DROP_SEGMENTS example_config"
    by (simp add: move_step_event_count_idle example_config_steps_per_unit)
  from plan_buffer_line_dropped_move_frame [OF idle_ring_fields(1) le, of 50 0]
    plan_buffer_line_dropped_move_frame [OF idle_ring_fields(1) le', of 50 0]
  show ?thesis
    using le le'
    by (auto simp add: idle_ring_fields move_deltas_idle block_steps_long_extrusion)
qed

end
